theory Spec2Isabelle
  imports Complex_Main "HOL-Library.Sublist" "HOL-Library.AList"
begin

section \<open>Python strings\<close>

text \<open>
  The scraper (\<^verbatim>\<open>src/scraper.py\<close>) works on Python \<^verbatim>\<open>str\<close> values. A string is modelled
  as a \<^typ>\<open>string\<close>, one \<^typ>\<open>char\<close> per code point, so the model covers the
  strings whose code points lie below 256 (Latin-1); \<open>length\<close> is Python's \<^verbatim>\<open>len\<close>.
  The library functions below follow CPython on that range: \<^verbatim>\<open>str.isspace\<close> (and the
  regular expression class \<^verbatim>\<open>\s\<close>) holds for the code points 9-13, 28-32, 133 and 160,
  \<^verbatim>\<open>\d\<close> for the ten ASCII digits only, and \<^verbatim>\<open>str.lower\<close> shifts A-Z and the
  capital letters 192-222 (but not the multiplication sign 215) by 32.
\<close>

definition cp :: "char \<Rightarrow> nat" where
  "cp c = of_char c"

definition isspace :: "char \<Rightarrow> bool" where
  "isspace c = ((9 \<le> cp c \<and> cp c \<le> 13) \<or> (28 \<le> cp c \<and> cp c \<le> 32) \<or> cp c = 133 \<or> cp c = 160)"

definition isdigit :: "char \<Rightarrow> bool" where
  "isdigit c = (48 \<le> cp c \<and> cp c \<le> 57)"

definition lower_char :: "char \<Rightarrow> char" where
  "lower_char c =
     (if (65 \<le> cp c \<and> cp c \<le> 90) \<or> (192 \<le> cp c \<and> cp c \<le> 222 \<and> cp c \<noteq> 215)
      then char_of (cp c + 32) else c)"

definition lower :: "string \<Rightarrow> string" where
  "lower s = map lower_char s"

text \<open>\<^verbatim>\<open>s.lstrip(chars)\<close>, \<^verbatim>\<open>s.rstrip(chars)\<close> and \<^verbatim>\<open>s.strip(chars)\<close> remove the
  characters of a set from the ends; without an argument the set is the whitespace.\<close>

definition lstrip_chars :: "string \<Rightarrow> string \<Rightarrow> string" where
  "lstrip_chars chars s = dropWhile (\<lambda>c. c \<in> set chars) s"

definition rstrip_chars :: "string \<Rightarrow> string \<Rightarrow> string" where
  "rstrip_chars chars s = rev (dropWhile (\<lambda>c. c \<in> set chars) (rev s))"

definition strip_chars :: "string \<Rightarrow> string \<Rightarrow> string" where
  "strip_chars chars s = rstrip_chars chars (lstrip_chars chars s)"

definition rstrip :: "string \<Rightarrow> string" where
  "rstrip s = rev (dropWhile isspace (rev s))"

definition strip :: "string \<Rightarrow> string" where
  "strip s = rstrip (dropWhile isspace s)"

text \<open>\<^verbatim>\<open>sub in s\<close>: \<open>sub\<close> occurs in \<open>s\<close> as a contiguous run.\<close>

fun contains :: "string \<Rightarrow> string \<Rightarrow> bool" where
  "contains sub [] = (sub = [])"
| "contains sub (c # cs) = (prefix sub (c # cs) \<or> contains sub cs)"

definition startswith :: "string \<Rightarrow> string \<Rightarrow> bool" where
  "startswith s pre = prefix pre s"

lemma contains_iff: "contains sub s \<longleftrightarrow> (\<exists>p q. s = p @ sub @ q)"
proof (induction s)
  case Nil
  then show ?case by auto
next
  case (Cons c cs)
  show ?case
  proof
    assume "contains sub (c # cs)"
    then consider "prefix sub (c # cs)" | "contains sub cs" by auto
    then show "\<exists>p q. c # cs = p @ sub @ q"
    proof cases
      case 1
      then obtain q where "c # cs = sub @ q" by (auto simp: prefix_def)
      then have "c # cs = [] @ sub @ q" by simp
      then show ?thesis by blast
    next
      case 2
      with Cons.IH obtain p q where "cs = p @ sub @ q" by auto
      then have "c # cs = (c # p) @ sub @ q" by simp
      then show ?thesis by blast
    qed
  next
    assume "\<exists>p q. c # cs = p @ sub @ q"
    then obtain p q where pq: "c # cs = p @ sub @ q" by auto
    show "contains sub (c # cs)"
    proof (cases p)
      case Nil
      with pq have "prefix sub (c # cs)" by (simp add: prefix_def)
      then show ?thesis by simp
    next
      case (Cons a p')
      with pq have "cs = p' @ sub @ q" by simp
      with Cons.IH have "contains sub cs" by blast
      then show ?thesis by simp
    qed
  qed
qed

lemma contains_map: "contains sub s \<Longrightarrow> contains (map f sub) (map f s)"
  unfolding contains_iff by (metis map_append)

lemma contains_lower: "contains sub s \<Longrightarrow> contains (lower sub) (lower s)"
  unfolding lower_def by (rule contains_map)

lemma length_lower [simp]: "length (lower s) = length s"
  by (simp add: lower_def)

section \<open>Bot-block detection\<close>

text \<open>
  \<^verbatim>\<open>_blocked(html)\<close>, lines 324-328: one of five phrases occurs in the lower-cased body and
  the body has fewer than 20000 characters.
\<close>

definition signals :: "string list" where
  "signals = [''robot check'', ''captcha'', ''are you a robot'',
              ''enter the characters'', ''verify you are human'']"

definition blocked :: "string \<Rightarrow> bool" where
  "blocked html = (let low = lower html in
     list_ex (\<lambda>s. contains s low) signals \<and> length html < 20000)"

lemma signals_lower: "s \<in> set signals \<Longrightarrow> lower s = s"
  by (auto simp: signals_def lower_def lower_char_def cp_def)

text \<open>
  C5. A body of fewer than 20000 characters that contains "captcha", or any other phrase of
  the block-phrase list, is blocked; a body of 20000 characters or more is never blocked,
  whatever it contains.
\<close>

theorem blocked_small_and_large:
  "(length body < 20000 \<and> (contains ''captcha'' body \<or> (\<exists>s \<in> set signals. contains s body))
      \<longrightarrow> blocked body)
   \<and> (20000 \<le> length body \<longrightarrow> \<not> blocked body)"
proof -
  have cap: "''captcha'' \<in> set signals" by (simp add: signals_def)
  have "blocked body" if len: "length body < 20000" and s: "s \<in> set signals" and c: "contains s body" for s
  proof -
    from c have "contains (lower s) (lower body)" by (rule contains_lower)
    with s have "contains s (lower body)" by (simp add: signals_lower)
    with s have "list_ex (\<lambda>s. contains s (lower body)) signals"
      unfolding list_ex_iff by blast
    with len show ?thesis by (simp add: blocked_def)
  qed
  with cap show ?thesis by (auto simp: blocked_def)
qed

theorem blocked_small_and_large_witness:
  "blocked ''Please solve the captcha to continue''
   \<and> \<not> blocked (replicate 20000 (CHR ''x'') @ ''Please solve the captcha to continue'')"
proof -
  have c: "contains ''captcha'' ''Please solve the captcha to continue''" by simp
  have l: "length ''Please solve the captcha to continue'' < 20000" by simp
  have g: "20000 \<le> length (replicate 20000 (CHR ''x'') @ ''Please solve the captcha to continue'')"
    by simp
  from blocked_small_and_large [of "''Please solve the captcha to continue''"] c l
  have 1: "blocked ''Please solve the captcha to continue''" by blast
  from blocked_small_and_large
    [of "replicate 20000 (CHR ''x'') @ ''Please solve the captcha to continue''"] g
  have 2: "\<not> blocked (replicate 20000 (CHR ''x'') @ ''Please solve the captcha to continue'')"
    by blast
  from 1 2 show ?thesis by simp
qed


section \<open>Price and image normalisation\<close>

text \<open>
  \<^verbatim>\<open>_price(text)\<close>, lines 270-280. A price is a Python float; every float the function
  can return is the value of at most seven integer digits and at most two fraction digits, so
  it is modelled by the rational number that decimal denotes (the range test against 10 and
  10000000 is the same on both). The argument is \<open>None\<close> or the text \<^verbatim>\<open>str(text)\<close>.

  The first substitution deletes the characters \<^verbatim>\<open>, \xa0 $\<close> and the pound sign (the rupee
  and euro signs lie beyond code point 255). The second deletes, scanning from the left and
  ignoring case, each of \<^verbatim>\<open>INR\<close>, \<^verbatim>\<open>MRP\<close>, \<^verbatim>\<open>RS\<close> with an optional dot, and
  \<^verbatim>\<open>USD\<close>. The search \<^verbatim>\<open>(\d{2,7}(?:\.\d{1,2})?)\<close> takes the leftmost place where two
  digits stand, up to seven digits from there, and then a dot with one or two digits if they
  follow.
\<close>

definition strip_currency :: "string \<Rightarrow> string" where
  "strip_currency s =
     filter (\<lambda>c. c \<noteq> CHR '','' \<and> cp c \<noteq> 160 \<and> c \<noteq> CHR ''$'' \<and> cp c \<noteq> 163) s"

function drop_codes :: "string \<Rightarrow> string" where
  "drop_codes [] = []"
| "drop_codes (c # cs) =
     (let s = c # cs; l3 = lower (take 3 s) in
      if l3 = ''inr'' \<or> l3 = ''mrp'' then drop_codes (drop 3 s)
      else if lower (take 2 s) = ''rs''
        then (if take 1 (drop 2 s) = ''.'' then drop_codes (drop 3 s) else drop_codes (drop 2 s))
      else if l3 = ''usd'' then drop_codes (drop 3 s)
      else c # drop_codes cs)"
  by pat_completeness auto
termination
  by (relation "measure length") auto

fun search_number :: "string \<Rightarrow> (string \<times> string) option" where
  "search_number [] = None"
| "search_number (c # cs) =
     (let run = takeWhile isdigit (c # cs) in
      if 2 \<le> length run then
        (let ip = take 7 run; rest = drop (length ip) (c # cs) in
         case rest of
           [] \<Rightarrow> Some (ip, [])
         | d # r \<Rightarrow>
             if d = CHR ''.'' \<and> takeWhile isdigit r \<noteq> []
             then Some (ip, take 2 (takeWhile isdigit r))
             else Some (ip, []))
      else search_number cs)"

definition digits_val :: "string \<Rightarrow> nat" where
  "digits_val ds = foldl (\<lambda>a c. 10 * a + (cp c - 48)) 0 ds"

text \<open>\<^verbatim>\<open>float(m.group(1))\<close> on the matched digits and fraction digits.\<close>

definition float_of :: "string \<Rightarrow> string \<Rightarrow> rat" where
  "float_of ip fp = of_nat (digits_val ip) + of_nat (digits_val fp) / 10 ^ length fp"

definition price :: "string option \<Rightarrow> rat option" where
  "price text =
     (case text of
        None \<Rightarrow> None
      | Some s \<Rightarrow>
          (let t = strip (drop_codes (strip_currency s)) in
           case search_number t of
             None \<Rightarrow> None
           | Some (ip, fp) \<Rightarrow>
               (let v = float_of ip fp in
                if 10 < v \<and> v < 10000000 then Some v else None)))"

text \<open>
  \<^verbatim>\<open>_norm_img(url)\<close>, lines 282-286, on \<open>None\<close> or a string: an empty value is absent, a
  value starting with \<^verbatim>\<open>//\<close> gets \<^verbatim>\<open>https:\<close> in front, and what then does not start with
  \<^verbatim>\<open>http\<close> is absent.
\<close>

definition norm_img :: "string option \<Rightarrow> string option" where
  "norm_img url =
     (case url of
        None \<Rightarrow> None
      | Some u0 \<Rightarrow>
          if u0 = [] then None
          else (let u = strip u0;
                    u' = (if startswith u ''//'' then ''https:'' @ u else u)
                in if startswith u' ''http'' then Some u' else None))"

lemma price_in_range: "price t = Some v \<Longrightarrow> 10 < v \<and> v < 10000000"
  by (auto simp: price_def Let_def split: option.splits if_splits)

lemma norm_img_http: "norm_img c = Some u \<Longrightarrow> startswith u ''http''"
  by (auto simp: norm_img_def Let_def split: option.splits if_splits)

section \<open>Specification normalisation\<close>

text \<open>
  \<^verbatim>\<open>_clean_spec_text(value)\<close>, lines 435-441, on \<open>None\<close> or the text \<^verbatim>\<open>str(value)\<close>:
  no-break spaces become spaces, each run of whitespace becomes one space, the ends are
  stripped of whitespace, then of colons and spaces, then of whitespace again. (The
  directional marks the second substitution deletes lie beyond code point 255.)
\<close>

function collapse_ws :: "string \<Rightarrow> string" where
  "collapse_ws [] = []"
| "collapse_ws (c # cs) =
     (if isspace c then CHR '' '' # collapse_ws (dropWhile isspace cs)
      else c # collapse_ws cs)"
  by pat_completeness auto
termination
  by (relation "measure length") (auto simp: length_dropWhile_le le_imp_less_Suc)

definition clean_spec_text :: "string option \<Rightarrow> string" where
  "clean_spec_text val =
     (case val of
        None \<Rightarrow> []
      | Some s \<Rightarrow>
          (let txt = map (\<lambda>c. if cp c = 160 then CHR '' '' else c) s;
               txt = strip (collapse_ws txt)
           in strip (strip_chars '': '' txt)))"

definition SPEC_MAX_ITEMS :: nat where
  "SPEC_MAX_ITEMS = 36"

definition SPEC_NOISE_KEYS :: "string list" where
  "SPEC_NOISE_KEYS =
     [[], ''asin'', ''manufacturer'', ''customerreviews'', ''customerrating'', ''reviews'',
      ''ratings'', ''bestsellersrank'', ''datefirstavailable'', ''sellers'', ''seller'',
      ''returnpolicy'', ''delivery'', ''offers'', ''warranty'', ''services'', ''producturl'',
      ''url'', ''image'', ''sku'', ''modelnumber'', ''itemmodelnumber'']"

definition unavailable :: "string list" where
  "unavailable = [''na'', ''n/a'', ''not available'', ''none'', ''-'', ''--'']"

text \<open>\<^verbatim>\<open>re.sub(r"[^a-z0-9]+", "", key.lower())\<close>: the key folded for comparison.\<close>

definition key_norm :: "string \<Rightarrow> string" where
  "key_norm key =
     filter (\<lambda>c. (97 \<le> cp c \<and> cp c \<le> 122) \<or> (48 \<le> cp c \<and> cp c \<le> 57)) (lower key)"

definition shorten :: "string \<Rightarrow> string" where
  "shorten val = (if length val > 260 then rstrip (take 257 val) @ ''...'' else val)"

text \<open>
  \<^verbatim>\<open>_normalize_specs(pairs, max_items)\<close>, lines 444-466. The dictionary \<^verbatim>\<open>specs\<close> keeps
  insertion order, so it is an association list, and \<^verbatim>\<open>specs[key] = val\<close> is
  \<^const>\<open>AList.update\<close>; \<^verbatim>\<open>seen\<close> is the list of folded keys accepted so far.
\<close>

fun normalize_loop ::
  "nat \<Rightarrow> (string option \<times> string option) list \<Rightarrow> (string \<times> string) list \<Rightarrow> string list
     \<Rightarrow> (string \<times> string) list" where
  "normalize_loop max_items [] specs seen = specs"
| "normalize_loop max_items ((raw_k, raw_v) # pairs) specs seen =
     (let key = clean_spec_text raw_k; val = clean_spec_text raw_v in
      if key = [] \<or> val = [] then normalize_loop max_items pairs specs seen
      else if key_norm key = [] \<or> key_norm key \<in> set SPEC_NOISE_KEYS \<or> key_norm key \<in> set seen
        then normalize_loop max_items pairs specs seen
      else if lower val \<in> set unavailable then normalize_loop max_items pairs specs seen
      else if length key > 80 then normalize_loop max_items pairs specs seen
      else (let specs' = AList.update key (shorten val) specs;
                seen' = key_norm key # seen
            in if length specs' \<ge> max_items then specs'
               else normalize_loop max_items pairs specs' seen'))"

definition normalize_specs :: "(string option \<times> string option) list \<Rightarrow> (string \<times> string) list" where
  "normalize_specs pairs = normalize_loop SPEC_MAX_ITEMS pairs [] []"

text \<open>
  What the loop computes, said without the loop: the cleaned pairs that pass every test of
  the loop body (\<open>admissible\<close>), of which the first per folded key is kept.
\<close>

definition clean_pair :: "string option \<times> string option \<Rightarrow> string \<times> string" where
  "clean_pair p = (clean_spec_text (fst p), clean_spec_text (snd p))"

definition admissible :: "string \<times> string \<Rightarrow> bool" where
  "admissible p =
     (fst p \<noteq> [] \<and> snd p \<noteq> [] \<and> key_norm (fst p) \<noteq> [] \<and> key_norm (fst p) \<notin> set SPEC_NOISE_KEYS
      \<and> lower (snd p) \<notin> set unavailable \<and> length (fst p) \<le> 80)"

fun first_per_key :: "string list \<Rightarrow> (string \<times> string) list \<Rightarrow> (string \<times> string) list" where
  "first_per_key seen [] = []"
| "first_per_key seen (p # ps) =
     (if key_norm (fst p) \<in> set seen then first_per_key seen ps
      else p # first_per_key (key_norm (fst p) # seen) ps)"

lemmas str_eval =
  lower_def lower_char_def cp_def char_of_def bit_Suc_0_iff isspace_def isdigit_def
  strip_def rstrip_def strip_chars_def lstrip_chars_def rstrip_chars_def startswith_def

lemma update_new_key: "k \<notin> fst ` set al \<Longrightarrow> AList.update k v al = al @ [(k, v)]"
  by (induction al) auto

lemma first_per_key_subset: "set (first_per_key seen ps) \<subseteq> set ps"
  by (induction ps arbitrary: seen) auto

lemma first_per_key_unseen: "p \<in> set (first_per_key seen ps) \<Longrightarrow> key_norm (fst p) \<notin> set seen"
proof (induction ps arbitrary: seen)
  case Nil
  then show ?case by simp
next
  case (Cons q qs)
  show ?case
  proof (cases "key_norm (fst q) \<in> set seen")
    case True
    with Cons.prems have "p \<in> set (first_per_key seen qs)" by simp
    then show ?thesis by (rule Cons.IH)
  next
    case False
    with Cons.prems consider "p = q" | "p \<in> set (first_per_key (key_norm (fst q) # seen) qs)"
      by auto
    then show ?thesis
    proof cases
      case 1
      with False show ?thesis by simp
    next
      case 2
      then have "key_norm (fst p) \<notin> set (key_norm (fst q) # seen)" by (rule Cons.IH)
      then show ?thesis by simp
    qed
  qed
qed

lemma first_per_key_distinct: "distinct (map (\<lambda>p. key_norm (fst p)) (first_per_key seen ps))"
proof (induction ps arbitrary: seen)
  case Nil
  then show ?case by simp
next
  case (Cons q qs)
  have "key_norm (fst q) \<notin> (\<lambda>p. key_norm (fst p)) ` set (first_per_key (key_norm (fst q) # seen) qs)"
  proof
    assume "key_norm (fst q) \<in> (\<lambda>p. key_norm (fst p)) ` set (first_per_key (key_norm (fst q) # seen) qs)"
    then obtain p where p: "p \<in> set (first_per_key (key_norm (fst q) # seen) qs)"
      and eq: "key_norm (fst q) = key_norm (fst p)" by auto
    from p have "key_norm (fst p) \<notin> set (key_norm (fst q) # seen)" by (rule first_per_key_unseen)
    with eq show False by simp
  qed
  with Cons.IH show ?case by simp
qed

lemma first_per_key_subseq: "subseq (first_per_key seen ps) ps"
  by (induction ps arbitrary: seen) auto

lemma first_per_key_first:
  "p \<in> set (first_per_key seen ps) \<Longrightarrow> find (\<lambda>q. key_norm (fst q) = key_norm (fst p)) ps = Some p"
proof (induction ps arbitrary: seen)
  case Nil
  then show ?case by simp
next
  case (Cons q qs)
  show ?case
  proof (cases "key_norm (fst q) \<in> set seen")
    case True
    with Cons.prems have in_rest: "p \<in> set (first_per_key seen qs)" by simp
    then have "key_norm (fst p) \<notin> set seen" by (rule first_per_key_unseen)
    with True have "key_norm (fst q) \<noteq> key_norm (fst p)" by auto
    with Cons.IH [OF in_rest] show ?thesis by simp
  next
    case False
    with Cons.prems consider "p = q" | "p \<in> set (first_per_key (key_norm (fst q) # seen) qs)"
      by auto
    then show ?thesis
    proof cases
      case 1
      then show ?thesis by simp
    next
      case 2
      then have "key_norm (fst p) \<notin> set (key_norm (fst q) # seen)" by (rule first_per_key_unseen)
      then have "key_norm (fst q) \<noteq> key_norm (fst p)" by auto
      with Cons.IH [OF 2] show ?thesis by simp
    qed
  qed
qed

text \<open>The loop, started below its bound with every accepted key recorded in \<open>seen\<close>,
  appends the first \<open>max_items - length specs\<close> new entries.\<close>

lemma normalize_loop_eq:
  "length specs < m \<Longrightarrow> (\<lambda>e. key_norm (fst e)) ` set specs \<subseteq> set seen \<Longrightarrow>
   normalize_loop m pairs specs seen =
     specs @ map (\<lambda>p. (fst p, shorten (snd p)))
       (take (m - length specs) (first_per_key seen (filter admissible (map clean_pair pairs))))"
proof (induction pairs arbitrary: specs seen)
  case Nil
  then show ?case by simp
next
  case (Cons pr pairs)
  obtain raw_k raw_v where pr: "pr = (raw_k, raw_v)" by (cases pr)
  define key where "key = clean_spec_text raw_k"
  define val where "val = clean_spec_text raw_v"
  have cp: "clean_pair pr = (key, val)" by (simp add: clean_pair_def pr key_def val_def)
  show ?case
  proof (cases "admissible (key, val) \<and> key_norm key \<notin> set seen")
    case False
    then have skip: "normalize_loop m (pr # pairs) specs seen = normalize_loop m pairs specs seen"
      by (auto simp: pr key_def [symmetric] val_def [symmetric] admissible_def Let_def)
    from False have "first_per_key seen (filter admissible (map clean_pair (pr # pairs)))
        = first_per_key seen (filter admissible (map clean_pair pairs))"
      by (auto simp: cp)
    with skip Cons.IH [OF Cons.prems] show ?thesis by simp
  next
    case True
    then have adm: "admissible (key, val)" and unseen: "key_norm key \<notin> set seen" by auto
    from unseen Cons.prems(2) have "key \<notin> fst ` set specs" by force
    then have upd: "AList.update key (shorten val) specs = specs @ [(key, shorten val)]"
      by (rule update_new_key)
    have fpk: "first_per_key seen (filter admissible (map clean_pair (pr # pairs)))
        = (key, val) # first_per_key (key_norm key # seen) (filter admissible (map clean_pair pairs))"
      using adm unseen by (simp add: cp)
    from Cons.prems(1) obtain d where d: "m - length specs = Suc d" by (cases "m - length specs") auto
    show ?thesis
    proof (cases "length specs + 1 \<ge> m")
      case True
      with d have d0: "d = 0" by simp
      from adm unseen True
      have "normalize_loop m (pr # pairs) specs seen = specs @ [(key, shorten val)]"
        by (simp add: pr key_def [symmetric] val_def [symmetric] admissible_def Let_def upd)
      then show ?thesis unfolding fpk d d0 by simp
    next
      case False
      then have lt: "length (specs @ [(key, shorten val)]) < m" by simp
      have inv: "(\<lambda>e. key_norm (fst e)) ` set (specs @ [(key, shorten val)]) \<subseteq> set (key_norm key # seen)"
        using Cons.prems(2) by auto
      from adm unseen False
      have "normalize_loop m (pr # pairs) specs seen
          = normalize_loop m pairs (specs @ [(key, shorten val)]) (key_norm key # seen)"
        by (simp add: pr key_def [symmetric] val_def [symmetric] admissible_def Let_def upd)
      also have "\<dots> = (specs @ [(key, shorten val)]) @ map (\<lambda>p. (fst p, shorten (snd p)))
          (take (m - length (specs @ [(key, shorten val)]))
             (first_per_key (key_norm key # seen) (filter admissible (map clean_pair pairs))))"
        by (rule Cons.IH [OF lt inv])
      also have "m - length (specs @ [(key, shorten val)]) = d" using d by simp
      finally show ?thesis unfolding fpk d by simp
    qed
  qed
qed

lemma normalize_specs_eq:
  "normalize_specs pairs =
     map (\<lambda>p. (fst p, shorten (snd p)))
       (take SPEC_MAX_ITEMS (first_per_key [] (filter admissible (map clean_pair pairs))))"
  unfolding normalize_specs_def
  using normalize_loop_eq [of "[]" SPEC_MAX_ITEMS "[]" pairs]
  by (simp add: SPEC_MAX_ITEMS_def)

lemma shorten_available: "lower v \<notin> set unavailable \<Longrightarrow> lower (shorten v) \<notin> set unavailable"
proof (cases "length v > 260")
  case False
  assume "lower v \<notin> set unavailable"
  with False show ?thesis by (simp add: shorten_def)
next
  case True
  have "last (lower (rstrip (take 257 v) @ ''...'')) = CHR ''.''"
    by (simp add: lower_def lower_char_def cp_def)
  moreover have "\<forall>u \<in> set unavailable. last u \<noteq> CHR ''.''"
    by (simp add: unavailable_def)
  ultimately have "lower (rstrip (take 257 v) @ ''...'') \<notin> set unavailable"
    by metis
  with True show ?thesis by (simp add: shorten_def)
qed

text \<open>
  C7. For every list of pairs, the normalised specification is exactly this list: clean the
  pairs, keep those that pass every test of the loop (\<open>admissible\<close>), keep of these the first
  per folded key, take the first 36, and shorten the values. So it has at most 36 entries; no
  entry's folded key is a noise key and no entry's value is one of the "unavailable" tokens;
  the folded keys of the entries are pairwise different; the entries come in the order of the
  cleaned pairs that pass the tests; and each entry is the first of its folded key among those,
  with its value shortened. The first occurrence that wins is the first one that passes the
  tests: a pair that a test drops does not reserve its folded key.
\<close>

theorem normalize_specs_properties:
  "normalize_specs pairs
     = map (\<lambda>p. (fst p, shorten (snd p)))
         (take 36 (first_per_key [] (filter admissible (map clean_pair pairs))))
   \<and> length (normalize_specs pairs) \<le> 36
   \<and> (\<forall>e \<in> set (normalize_specs pairs).
         key_norm (fst e) \<notin> set SPEC_NOISE_KEYS \<and> lower (snd e) \<notin> set unavailable)
   \<and> distinct (map (\<lambda>e. key_norm (fst e)) (normalize_specs pairs))
   \<and> subseq (normalize_specs pairs)
        (map (\<lambda>p. (fst p, shorten (snd p))) (filter admissible (map clean_pair pairs)))
   \<and> (\<forall>e \<in> set (normalize_specs pairs). \<exists>v.
         find (\<lambda>p. key_norm (fst p) = key_norm (fst e)) (filter admissible (map clean_pair pairs))
           = Some (fst e, v) \<and> snd e = shorten v)"
proof -
  define cands where "cands = filter admissible (map clean_pair pairs)"
  define kept where "kept = take SPEC_MAX_ITEMS (first_per_key [] cands)"
  have out: "normalize_specs pairs = map (\<lambda>p. (fst p, shorten (snd p))) kept"
    by (simp add: normalize_specs_eq kept_def cands_def)
  have 0: "normalize_specs pairs
     = map (\<lambda>p. (fst p, shorten (snd p)))
         (take 36 (first_per_key [] (filter admissible (map clean_pair pairs))))"
    by (simp add: normalize_specs_eq SPEC_MAX_ITEMS_def)
  have kept_fpk: "set kept \<subseteq> set (first_per_key [] cands)"
    unfolding kept_def by (rule set_take_subset)
  have kept_adm: "admissible p" if "p \<in> set kept" for p
  proof -
    from that kept_fpk first_per_key_subset have "p \<in> set cands" by blast
    then show ?thesis by (simp add: cands_def)
  qed
  have 1: "length (normalize_specs pairs) \<le> 36"
    by (simp add: out kept_def SPEC_MAX_ITEMS_def)
  have 2: "\<forall>e \<in> set (normalize_specs pairs).
      key_norm (fst e) \<notin> set SPEC_NOISE_KEYS \<and> lower (snd e) \<notin> set unavailable"
  proof
    fix e assume "e \<in> set (normalize_specs pairs)"
    then obtain p where p: "p \<in> set kept" and e: "e = (fst p, shorten (snd p))"
      by (auto simp: out)
    from kept_adm [OF p] have "key_norm (fst p) \<notin> set SPEC_NOISE_KEYS"
      and "lower (snd p) \<notin> set unavailable" by (auto simp: admissible_def)
    then show "key_norm (fst e) \<notin> set SPEC_NOISE_KEYS \<and> lower (snd e) \<notin> set unavailable"
      by (simp add: e shorten_available)
  qed
  have "distinct (map (\<lambda>p. key_norm (fst p)) (take SPEC_MAX_ITEMS (first_per_key [] cands)))"
    unfolding take_map [symmetric] by (rule distinct_take) (rule first_per_key_distinct)
  then have 3: "distinct (map (\<lambda>e. key_norm (fst e)) (normalize_specs pairs))"
    by (simp add: out kept_def comp_def)
  have "subseq kept (first_per_key [] cands)"
    unfolding kept_def by (rule prefix_imp_subseq) (rule take_is_prefix)
  also have "subseq (first_per_key [] cands) cands" by (rule first_per_key_subseq)
  finally have "subseq (map (\<lambda>p. (fst p, shorten (snd p))) kept)
      (map (\<lambda>p. (fst p, shorten (snd p))) cands)"
    by (rule subseq_map)
  then have 4: "subseq (normalize_specs pairs)
      (map (\<lambda>p. (fst p, shorten (snd p))) (filter admissible (map clean_pair pairs)))"
    by (simp add: out cands_def)
  have 5: "\<forall>e \<in> set (normalize_specs pairs). \<exists>v.
      find (\<lambda>p. key_norm (fst p) = key_norm (fst e)) (filter admissible (map clean_pair pairs))
        = Some (fst e, v) \<and> snd e = shorten v"
  proof
    fix e assume "e \<in> set (normalize_specs pairs)"
    then obtain p where p: "p \<in> set kept" and e: "e = (fst p, shorten (snd p))"
      by (auto simp: out)
    from p kept_fpk have "p \<in> set (first_per_key [] cands)" by blast
    then have "find (\<lambda>q. key_norm (fst q) = key_norm (fst p)) cands = Some p"
      by (rule first_per_key_first)
    then have "find (\<lambda>q. key_norm (fst q) = key_norm (fst e)) cands = Some (fst e, snd p)
        \<and> snd e = shorten (snd p)"
      by (simp add: e)
    then show "\<exists>v. find (\<lambda>p. key_norm (fst p) = key_norm (fst e))
        (filter admissible (map clean_pair pairs)) = Some (fst e, v) \<and> snd e = shorten v"
      unfolding cands_def by blast
  qed
  from 0 1 2 3 4 5 show ?thesis by (intro conjI)
qed

lemma clean_examples:
  "clean_spec_text (Some ''Color'') = ''Color''"
  "clean_spec_text (Some ''Red'') = ''Red''"
  "clean_spec_text (Some ''ASIN'') = ''ASIN''"
  "clean_spec_text (Some ''B01'') = ''B01''"
  "clean_spec_text (Some '' COLOR: '') = ''COLOR''"
  "clean_spec_text (Some ''Blue'') = ''Blue''"
  "clean_spec_text (Some ''Weight'') = ''Weight''"
  "clean_spec_text (Some ''N/A'') = ''N/A''"
  "clean_spec_text (Some ''weight'') = ''weight''"
  "clean_spec_text (Some ''2  kg'') = ''2 kg''"
  "clean_spec_text (Some ''color'') = ''color''"
  by (simp_all add: clean_spec_text_def str_eval)

lemma key_norm_examples:
  "key_norm ''Color'' = ''color''"
  "key_norm ''ASIN'' = ''asin''"
  "key_norm ''COLOR'' = ''color''"
  "key_norm ''Weight'' = ''weight''"
  "key_norm ''weight'' = ''weight''"
  "key_norm ''color'' = ''color''"
  by (simp_all add: key_norm_def str_eval)

lemma normalize_specs_example:
  "normalize_specs
     [(Some ''Color'', Some ''Red''), (Some ''ASIN'', Some ''B01''),
      (Some '' COLOR: '', Some ''Blue''), (Some ''Weight'', Some ''N/A''),
      (Some ''weight'', Some ''2  kg'')]
   = [(''Color'', ''Red''), (''weight'', ''2 kg'')]"
  by (simp add: normalize_specs_def clean_examples key_norm_examples SPEC_NOISE_KEYS_def
      unavailable_def shorten_def SPEC_MAX_ITEMS_def str_eval)

theorem normalize_specs_properties_witness:
  "normalize_specs
     [(Some ''Color'', Some ''Red''), (Some ''ASIN'', Some ''B01''),
      (Some '' COLOR: '', Some ''Blue''), (Some ''Weight'', Some ''N/A''),
      (Some ''weight'', Some ''2  kg'')]
   = [(''Color'', ''Red''), (''weight'', ''2 kg'')]
   \<and> [(''Color'', ''Red''), (''weight'', ''2 kg'')]
     = map (\<lambda>p. (fst p, shorten (snd p)))
         (take 36 (first_per_key [] (filter admissible (map clean_pair
            [(Some ''Color'', Some ''Red''), (Some ''ASIN'', Some ''B01''),
             (Some '' COLOR: '', Some ''Blue''), (Some ''Weight'', Some ''N/A''),
             (Some ''weight'', Some ''2  kg'')]))))
   \<and> distinct (map (\<lambda>e. key_norm (fst e)) [(''Color'', ''Red''), (''weight'', ''2 kg'')])"
proof -
  let ?pairs = "[(Some ''Color'', Some ''Red''), (Some ''ASIN'', Some ''B01''),
      (Some '' COLOR: '', Some ''Blue''), (Some ''Weight'', Some ''N/A''),
      (Some ''weight'', Some ''2  kg'')]"
  note props = normalize_specs_properties [of ?pairs]
  from props have eq: "normalize_specs ?pairs
     = map (\<lambda>p. (fst p, shorten (snd p)))
         (take 36 (first_per_key [] (filter admissible (map clean_pair ?pairs))))"
    by (rule conjunct1)
  from props have d: "distinct (map (\<lambda>e. key_norm (fst e)) (normalize_specs ?pairs))"
    by blast
  from eq d show ?thesis unfolding normalize_specs_example by (intro conjI) simp_all
qed

text \<open>A pair that is dropped for its value does not reserve its folded key: the later pair
  with the same folded key is kept, although it is not the first occurrence of that key.\<close>

theorem normalize_specs_later_occurrence_kept:
  "normalize_specs [(Some ''Color'', Some ''N/A''), (Some ''color'', Some ''Red'')]
     = [(''color'', ''Red'')]"
  by (simp add: normalize_specs_def clean_examples key_norm_examples SPEC_NOISE_KEYS_def
      unavailable_def shorten_def SPEC_MAX_ITEMS_def str_eval)


section \<open>Price normalisation on out-of-range input\<close>

declare search_number.simps [simp del]

lemma price_steps_long:
  "strip (drop_codes (strip_currency ''12345678'')) = ''12345678''"
  "search_number ''12345678'' = Some (''1234567'', [])"
  "float_of ''1234567'' [] = 1234567"
  by (simp_all add: strip_currency_def float_of_def digits_val_def search_number.simps str_eval)

lemma price_steps_small:
  "strip (drop_codes (strip_currency ''9.99'')) = ''9.99''"
  "search_number ''9.99'' = Some (''99'', [])"
  "float_of ''99'' [] = 99"
  by (simp_all add: strip_currency_def float_of_def digits_val_def search_number.simps str_eval)

text \<open>
  C3. The claim says a string whose numeric value lies outside the open interval from 10 to
  10000000 normalises to nothing. The search keeps a run of two to seven digits wherever it
  stands, so the eight-digit text "12345678" gives 1234567 and the text "9.99" gives 99: both
  texts have a value outside the interval and both are given a price inside it.
\<close>

theorem price_keeps_fragment_of_out_of_range_text:
  "price (Some ''12345678'') = Some 1234567 \<and> price (Some ''9.99'') = Some 99"
  by (simp add: price_def price_steps_long price_steps_small)

section \<open>Comparison and prediction\<close>

text \<open>
  The record a scraper returns (the dictionary with the keys \<^verbatim>\<open>platform\<close>, \<^verbatim>\<open>title\<close>,
  \<^verbatim>\<open>price\<close>, \<^verbatim>\<open>image_url\<close>, \<^verbatim>\<open>url\<close>, \<^verbatim>\<open>availability\<close>, \<^verbatim>\<open>specs\<close>). The URL and the
  availability are whatever value the structured endpoint sent, so they are JSON values
  (the type of the values \<^verbatim>\<open>json.loads\<close> and \<^verbatim>\<open>r.json()\<close> return).
\<close>

datatype json =
    JNull
  | JBool bool
  | JNum rat
  | JStr string
  | JList "json list"
  | JDict "(string \<times> json) list"

record product =
  p_platform :: string
  p_title :: "string option"
  p_price :: "rat option"
  p_image_url :: "string option"
  p_url :: json
  p_availability :: json
  p_specs :: "(string \<times> string) list"

text \<open>
  The comparison block of \<^verbatim>\<open>analyze_url\<close>, lines 1004-1012 and 1056-1062, as a function of
  the dictionary \<^verbatim>\<open>results\<close> (an association list in insertion order). A price counts when
  it is truthy: present and not zero. \<^verbatim>\<open>float("inf")\<close> is \<open>None\<close> in the second component
  of the loop state.
\<close>

fun cheapest_loop ::
  "(string \<times> product) list \<Rightarrow> string option \<times> rat option \<Rightarrow> string option \<times> rat option" where
  "cheapest_loop [] acc = acc"
| "cheapest_loop ((plat, info) # rest) (cheapest_platform, cheapest_price) =
     (case p_price info of
        None \<Rightarrow> cheapest_loop rest (cheapest_platform, cheapest_price)
      | Some p \<Rightarrow>
          if p \<noteq> 0 \<and> (case cheapest_price of None \<Rightarrow> True | Some b \<Rightarrow> p < b)
          then cheapest_loop rest (Some plat, Some p)
          else cheapest_loop rest (cheapest_platform, cheapest_price))"

text \<open>\<^verbatim>\<open>[v.get("price") for v in results.values() if v.get("price")]\<close>\<close>

definition prices_of :: "(string \<times> product) list \<Rightarrow> rat list" where
  "prices_of results =
     concat (map (\<lambda>kv. case p_price (snd kv) of
                          None \<Rightarrow> []
                        | Some v \<Rightarrow> if v \<noteq> 0 then [v] else []) results)"

record comparison =
  cheapest_platform :: "string option"
  cheapest_price :: "rat option"
  price_difference :: "rat option"
  savings_platform :: "string option"
  both_found :: bool

definition compare :: "(string \<times> product) list \<Rightarrow> comparison" where
  "compare results =
     (let c = cheapest_loop results (None, None);
          prices = prices_of results;
          price_diff = (if length prices = 2 then Some \<bar>prices ! 0 - prices ! 1\<bar> else None)
      in \<lparr>cheapest_platform = fst c, cheapest_price = snd c, price_difference = price_diff,
          savings_platform = fst c, both_found = (length results = 2)\<rparr>)"

text \<open>
  The prediction block, lines 1017-1029 and 1047-1053. Prices are floats in the source; here
  they are the decimals the floats stand for, and \<^verbatim>\<open>round(x, 2)\<close> goes to the nearest
  hundredth. Where \<open>x\<close> lies exactly halfway between two hundredths the float result depends
  on the binary representation of the product, so the choice there is a parameter
  \<open>tie\<close> of the model (\<open>tie x\<close>: round up), and what is proved holds for every choice.
\<close>

definition round2 :: "(rat \<Rightarrow> bool) \<Rightarrow> rat \<Rightarrow> rat" where
  "round2 tie x =
     (let lo = of_int \<lfloor>x * 100\<rfloor> / 100; r = x * 100 - of_int \<lfloor>x * 100\<rfloor> in
      if r < 1 / 2 then lo
      else if 1 / 2 < r then lo + 1 / 100
      else if tie x then lo + 1 / 100 else lo)"

datatype recommendation = WAIT | BUY_NOW | PRICE_UNAVAILABLE

record prediction =
  future_prices :: "(string \<times> rat) list"
  recommendation :: recommendation
  max_savings :: "rat option"
  best_time_days :: "nat option"
  confidence :: rat

definition decay :: "(string \<times> rat) list" where
  "decay = [(''7_days'', 98 / 100), (''15_days'', 95 / 100), (''30_days'', 92 / 100),
            (''60_days'', 90 / 100), (''90_days'', 88 / 100)]"

definition predict :: "(rat \<Rightarrow> bool) \<Rightarrow> rat option \<Rightarrow> nat \<Rightarrow> prediction" where
  "predict tie current_price n_results =
     (let conf = (if n_results = 2 then 85 / 100 else 60 / 100);
          unavailable_result =
            \<lparr>future_prices = [], recommendation = PRICE_UNAVAILABLE, max_savings = None,
             best_time_days = None, confidence = conf\<rparr>
      in case current_price of
           None \<Rightarrow> unavailable_result
         | Some p \<Rightarrow>
             if p = 0 then unavailable_result
             else
               (let fp = map (\<lambda>(label, factor). (label, round2 tie (p * factor))) decay;
                    ms = round2 tie (p - min_list (map snd fp));
                    rcm = (if ms / p > 5 / 100 then WAIT else BUY_NOW)
                in \<lparr>future_prices = fp, recommendation = rcm, max_savings = Some ms,
                    best_time_days = (if rcm = WAIT then Some 90 else None),
                    confidence = conf\<rparr>))"

lemma round2_hundredth: "\<exists>k::int. round2 tie x = of_int k / 100"
proof -
  have "of_int \<lfloor>x * 100\<rfloor> / 100 + 1 / 100 = (of_int (\<lfloor>x * 100\<rfloor> + 1) :: rat) / 100"
    by (simp add: add_divide_distrib)
  then show ?thesis
    unfolding round2_def Let_def by (metis (full_types))
qed

lemma round2_near: "\<bar>round2 tie x - x\<bar> \<le> 1 / 200"
proof -
  define f where "f = (of_int \<lfloor>x * 100\<rfloor> :: rat)"
  have lo: "f \<le> x * 100" and hi: "x * 100 < f + 1"
    unfolding f_def by linarith+
  show ?thesis
    unfolding round2_def Let_def f_def [symmetric]
    using lo hi by (auto simp: abs_le_iff field_simps)
qed

lemma round2_exact: "x * 100 = of_int k \<Longrightarrow> round2 tie x = x"
proof -
  assume a: "x * 100 = of_int k"
  then have "\<lfloor>x * 100\<rfloor> = k" by simp
  with a have "round2 tie x = of_int k / 100" by (simp add: round2_def)
  also from a have "\<dots> = x" by (simp add: field_simps)
  finally show ?thesis .
qed

lemma floor_rat_numeral: "\<lfloor>(numeral a :: rat) / numeral b\<rfloor> = numeral a div numeral b"
  using floor_divide_of_int_eq [of "numeral a" "numeral b", where ?'a = rat] by simp

definition always_up :: "rat \<Rightarrow> bool" where
  "always_up x = True"

lemma predict_1000:
  "future_prices (predict tie (Some 1000) n)
     = [(''7_days'', 980), (''15_days'', 950), (''30_days'', 920), (''60_days'', 900), (''90_days'', 880)]"
  "max_savings (predict tie (Some 1000) n) = Some 120"
  "recommendation (predict tie (Some 1000) n) = WAIT"
  by (simp_all add: predict_def decay_def round2_def Let_def floor_rat_numeral)

lemma predict_1001:
  "future_prices (predict always_up (Some (1001 / 100)) n)
     = [(''7_days'', 981 / 100), (''15_days'', 951 / 100), (''30_days'', 921 / 100),
        (''60_days'', 901 / 100), (''90_days'', 881 / 100)]"
  "max_savings (predict always_up (Some (1001 / 100)) n) = Some (120 / 100)"
  "recommendation (predict always_up (Some (1001 / 100)) n) = WAIT"
  by (simp_all add: predict_def decay_def round2_def Let_def floor_rat_numeral)

lemma predict_Some:
  "p \<noteq> 0 \<Longrightarrow> predict tie (Some p) n =
     \<lparr>future_prices = map (\<lambda>(label, factor). (label, round2 tie (p * factor))) decay,
      recommendation =
        (if round2 tie (p - min_list (map snd (map (\<lambda>(label, factor). (label, round2 tie (p * factor))) decay))) / p
              > 5 / 100 then WAIT else BUY_NOW),
      max_savings =
        Some (round2 tie (p - min_list (map snd (map (\<lambda>(label, factor). (label, round2 tie (p * factor))) decay)))),
      best_time_days =
        (if round2 tie (p - min_list (map snd (map (\<lambda>(label, factor). (label, round2 tie (p * factor))) decay))) / p
              > 5 / 100 then Some 90 else None),
      confidence = (if n = 2 then 85 / 100 else 60 / 100)\<rparr>"
  by (simp add: predict_def Let_def)

lemma predict_None:
  "predict tie None n =
     \<lparr>future_prices = [], recommendation = PRICE_UNAVAILABLE, max_savings = None,
      best_time_days = None, confidence = (if n = 2 then 85 / 100 else 60 / 100)\<rparr>"
  by (simp add: predict_def Let_def)

text \<open>
  C2, as the code has it. For a current price \<open>p > 0\<close> the projected prices are \<open>p\<close> times the
  five factors, each rounded to a hundredth (so within 1/200 of the exact product, and equal
  to it when the product is a whole number of hundredths); the maximum savings are \<open>p\<close> minus
  the least projected price, rounded to a hundredth; the recommendation is \<open>WAIT\<close> when the
  maximum savings divided by \<open>p\<close> exceed 5 percent and \<open>BUY_NOW\<close> otherwise. For \<open>p = 1000\<close>
  the projected prices are 980, 950, 920, 900 and 880, the maximum savings 120 and the
  recommendation \<open>WAIT\<close>. Without a current price the recommendation is
  \<open>PRICE_UNAVAILABLE\<close> and nothing is projected.
\<close>

theorem predict_rounded_projection:
  "(0 < p \<longrightarrow>
      list_all2 (\<lambda>e d. fst e = fst d \<and> \<bar>snd e - p * snd d\<bar> \<le> 1 / 200
                        \<and> (\<exists>k::int. snd e = of_int k / 100)
                        \<and> ((\<exists>k::int. p * snd d * 100 = of_int k) \<longrightarrow> snd e = p * snd d))
        (future_prices (predict tie (Some p) n)) decay
      \<and> max_savings (predict tie (Some p) n)
          = Some (round2 tie (p - min_list (map snd (future_prices (predict tie (Some p) n)))))
      \<and> recommendation (predict tie (Some p) n)
          = (if the (max_savings (predict tie (Some p) n)) / p > 5 / 100 then WAIT else BUY_NOW))
   \<and> future_prices (predict tie (Some 1000) n)
        = [(''7_days'', 980), (''15_days'', 950), (''30_days'', 920), (''60_days'', 900), (''90_days'', 880)]
   \<and> max_savings (predict tie (Some 1000) n) = Some 120
   \<and> recommendation (predict tie (Some 1000) n) = WAIT
   \<and> recommendation (predict tie None n) = PRICE_UNAVAILABLE
   \<and> future_prices (predict tie None n) = []
   \<and> max_savings (predict tie None n) = None"
proof -
  have main: "list_all2 (\<lambda>e d. fst e = fst d \<and> \<bar>snd e - p * snd d\<bar> \<le> 1 / 200
                        \<and> (\<exists>k::int. snd e = of_int k / 100)
                        \<and> ((\<exists>k::int. p * snd d * 100 = of_int k) \<longrightarrow> snd e = p * snd d))
        (future_prices (predict tie (Some p) n)) decay
      \<and> max_savings (predict tie (Some p) n)
          = Some (round2 tie (p - min_list (map snd (future_prices (predict tie (Some p) n)))))
      \<and> recommendation (predict tie (Some p) n)
          = (if the (max_savings (predict tie (Some p) n)) / p > 5 / 100 then WAIT else BUY_NOW)"
    if pos: "0 < p"
  proof -
    from pos have nz: "p \<noteq> 0" by simp
    have each: "fst (l, round2 tie (p * f)) = fst (l, f)
        \<and> \<bar>snd (l, round2 tie (p * f)) - p * snd (l, f)\<bar> \<le> 1 / 200
        \<and> (\<exists>k::int. snd (l, round2 tie (p * f)) = of_int k / 100)
        \<and> ((\<exists>k::int. p * snd (l, f) * 100 = of_int k) \<longrightarrow> snd (l, round2 tie (p * f)) = p * snd (l, f))"
      for l :: string and f :: rat
      using round2_near [of tie "p * f"] round2_hundredth [of tie "p * f"] round2_exact [of "p * f" _ tie]
      by auto
    have "list_all2 (\<lambda>e d. fst e = fst d \<and> \<bar>snd e - p * snd d\<bar> \<le> 1 / 200
                        \<and> (\<exists>k::int. snd e = of_int k / 100)
                        \<and> ((\<exists>k::int. p * snd d * 100 = of_int k) \<longrightarrow> snd e = p * snd d))
        (map (\<lambda>(label, factor). (label, round2 tie (p * factor))) decay) decay"
      unfolding list_all2_map1 by (rule list_all2_refl) (use each in \<open>auto split: prod.splits\<close>)
    then show ?thesis by (simp add: predict_Some [OF nz])
  qed
  show ?thesis
    using main by (simp add: predict_1000 predict_None)
qed

theorem predict_rounded_projection_witness:
  "(0::rat) < 1001 / 100
   \<and> max_savings (predict always_up (Some (1001 / 100)) 1) = Some (120 / 100)
   \<and> recommendation (predict always_up (Some (1001 / 100)) 1) = WAIT
   \<and> future_prices (predict always_up (Some (1001 / 100)) 1)
       = [(''7_days'', 981 / 100), (''15_days'', 951 / 100), (''30_days'', 921 / 100),
          (''60_days'', 901 / 100), (''90_days'', 881 / 100)]"
proof -
  have pos: "(0::rat) < 1001 / 100" by simp
  from predict_rounded_projection [of "1001 / 100" always_up 1] pos
  have "recommendation (predict always_up (Some (1001 / 100)) 1)
      = (if the (max_savings (predict always_up (Some (1001 / 100)) 1)) / (1001 / 100) > 5 / 100
         then WAIT else BUY_NOW)"
    by blast
  then have "recommendation (predict always_up (Some (1001 / 100)) 1) = WAIT"
    by (simp add: predict_1001(2))
  with pos show ?thesis by (simp add: predict_1001)
qed

text \<open>
  The claim as worded has every projected price equal to \<open>p\<close> times the factor. For the
  price 10.01 the code's 7-day projection is 9.81, not 9.8098.
\<close>

theorem predict_not_exactly_scaled:
  "future_prices (predict always_up (Some (1001 / 100)) 1)
     \<noteq> map (\<lambda>(label, factor). (label, 1001 / 100 * factor)) decay"
  by (simp add: predict_1001 decay_def)

section \<open>The world outside the scraper\<close>

text \<open>
  The scraper calls the network (\<^verbatim>\<open>requests\<close>, \<^verbatim>\<open>cloudscraper\<close>, the ScraperAPI service) and
  library code that is not part of the repository (\<^verbatim>\<open>urllib.parse\<close>, \<^verbatim>\<open>re\<close>, \<^verbatim>\<open>json\<close>,
  \<^verbatim>\<open>BeautifulSoup\<close>). Both are parameters of the model, gathered in a record \<open>env\<close>; every
  theorem that mentions an \<open>env\<close> holds for all of them. An exception is a value of
  \<open>pyerr\<close>; a function that can raise returns \<open>pyerr + 'a\<close>.

  The network is not a function of the request alone: a reply may depend on everything that
  was requested before. The state threaded through the model is the list of requests made
  so far, and \<open>http\<close> answers a request given that list; \<open>None\<close> is a request that raised
  (a timeout, a connection error), which every caller catches.
\<close>

datatype pyerr = ValueError | AttributeError | RecursionError

record url_parts =
  netloc :: string
  path :: string
  query :: string

text \<open>A \<^verbatim>\<open>requests.Response\<close>: status, \<^verbatim>\<open>len(r.content)\<close>, \<^verbatim>\<open>r.text\<close>, the final
  \<^verbatim>\<open>r.url\<close>, \<^verbatim>\<open>r.headers.get("location", "")\<close> and \<^verbatim>\<open>r.json()\<close> (\<open>None\<close>: it raises).\<close>

record response =
  status_code :: nat
  content_len :: nat
  r_text :: string
  r_url :: string
  location :: string
  r_json :: "json option"

text \<open>An element of a parsed document: its attributes, \<^verbatim>\<open>el.get_text()\<close> and
  \<^verbatim>\<open>el.get_text(" ", strip=True)\<close>.\<close>

record element =
  attrs :: "(string \<times> string) list"
  get_text :: string
  get_text_strip :: string

text \<open>
  A parsed document answers \<^verbatim>\<open>soup.select_one(selector)\<close>; \<open>ld_scripts\<close> lists, for the
  elements of \<^verbatim>\<open>soup.select('script[type="application/ld+json"]')\<close>, the text
  \<^verbatim>\<open>sc.string or sc.get_text()\<close>; \<open>table_pairs\<close> is the list of pairs that
  \<^verbatim>\<open>_extract_specs_from_tables\<close> reads off the tables, lists and definition lists under the
  given selectors (that traversal of the tree is not modelled further).
\<close>

record soup =
  select_one :: "string \<Rightarrow> element option"
  ld_scripts :: "string list"
  table_pairs :: "string list \<Rightarrow> (string option \<times> string option) list"

text \<open>
  The requests: the structured endpoint, the HTML proxy (URL, \<^verbatim>\<open>render\<close>, timeout),
  \<^verbatim>\<open>cloudscraper\<close>, a plain \<^verbatim>\<open>requests.get\<close> with the \<open>i\<close>-th user agent of \<^verbatim>\<open>UAS\<close>, and
  the session of \<^verbatim>\<open>resolve_url\<close> with its \<open>i\<close>-th header profile.
\<close>

datatype request =
    Structured string
  | Proxy string bool nat
  | Cloudscraper string
  | Direct string nat
  | Session string nat

text \<open>
  The regular expressions of the source other than the one of \<^verbatim>\<open>_price\<close>, by the place they
  stand at: the two product-URL patterns of \<^verbatim>\<open>_extract_product_url_from_text\<close>, the ten
  patterns of \<^verbatim>\<open>_extract_price_from_scripts\<close>, the six of \<^verbatim>\<open>_extract_image_from_scripts\<close>,
  the three of \<^verbatim>\<open>_extract_flipkart_pid_price\<close> (built from the product identifier), and the
  two of \<^verbatim>\<open>_name_from_url\<close>. \<open>re_search\<close> returns \<^verbatim>\<open>m.group(0)\<close> and \<^verbatim>\<open>m.group(1)\<close> of the
  first match (the source reads no other group).
\<close>

datatype pattern =
    ProductUrlPat nat
  | ScriptPricePat nat
  | ScriptImagePat nat
  | PidPricePat nat string
  | NamePat nat

record env =
  SCRAPER_API_KEY :: string
  HAS_CS :: bool
  http :: "request list \<Rightarrow> request \<Rightarrow> response option"
  as_completed :: "request list \<Rightarrow> nat list"
  urlparse :: "string \<Rightarrow> pyerr + url_parts"
  parse_qs :: "string \<Rightarrow> (string \<times> string list) list"
  unquote :: "string \<Rightarrow> string"
  urljoin :: "string \<Rightarrow> string \<Rightarrow> pyerr + string"
  re_search :: "pattern \<Rightarrow> string \<Rightarrow> (string \<times> string) option"
  json_loads :: "string \<Rightarrow> json option"
  py_repr :: "json \<Rightarrow> string"
  BeautifulSoup :: "string \<Rightarrow> soup"

type_synonym log = "request list"

subsection \<open>Python values\<close>

text \<open>Truth of a value, \<^verbatim>\<open>d.get(k)\<close> and \<^verbatim>\<open>str(v)\<close> (a string is its own \<^verbatim>\<open>str\<close>; the text
  of any other value is left to \<open>py_repr\<close>).\<close>

fun truthy :: "json \<Rightarrow> bool" where
  "truthy JNull = False"
| "truthy (JBool b) = b"
| "truthy (JNum n) = (n \<noteq> 0)"
| "truthy (JStr s) = (s \<noteq> [])"
| "truthy (JList l) = (l \<noteq> [])"
| "truthy (JDict d) = (d \<noteq> [])"

definition jget :: "(string \<times> json) list \<Rightarrow> string \<Rightarrow> json" where
  "jget d k = (case map_of d k of None \<Rightarrow> JNull | Some v \<Rightarrow> v)"

text \<open>\<^verbatim>\<open>a or b\<close> on values.\<close>

definition jor :: "json \<Rightarrow> json \<Rightarrow> json" where
  "jor a b = (if truthy a then a else b)"

definition str_of :: "env \<Rightarrow> json \<Rightarrow> string" where
  "str_of E v = (case v of JStr s \<Rightarrow> s | _ \<Rightarrow> py_repr E v)"

text \<open>\<^verbatim>\<open>_price(v)\<close> and \<^verbatim>\<open>_norm_img(v)\<close> on a value: \<^verbatim>\<open>None\<close> stays \<^verbatim>\<open>None\<close>, anything else
  goes through \<^verbatim>\<open>str\<close>; \<^verbatim>\<open>_norm_img\<close> first drops every falsy value.\<close>

definition price_val :: "env \<Rightarrow> json \<Rightarrow> rat option" where
  "price_val E v = price (case v of JNull \<Rightarrow> None | _ \<Rightarrow> Some (str_of E v))"

definition norm_img_val :: "env \<Rightarrow> json \<Rightarrow> string option" where
  "norm_img_val E v = (if truthy v then norm_img (Some (str_of E v)) else None)"

text \<open>\<^verbatim>\<open>a or b\<close> on optional strings and optional prices (\<^verbatim>\<open>None\<close>, the empty string and
  zero are falsy).\<close>

definition sor :: "string option \<Rightarrow> string option \<Rightarrow> string option" where
  "sor a b = (case a of Some (c # cs) \<Rightarrow> a | _ \<Rightarrow> b)"

definition por :: "rat option \<Rightarrow> rat option \<Rightarrow> rat option" where
  "por a b = (case a of None \<Rightarrow> b | Some v \<Rightarrow> if v \<noteq> 0 then a else b)"

text \<open>\<^verbatim>\<open>s.replace(old, new)\<close> for a non-empty \<open>old\<close>, and \<^verbatim>\<open>s.split(sep)\<close> for one character.\<close>

function replace :: "string \<Rightarrow> string \<Rightarrow> string \<Rightarrow> string" where
  "replace old new [] = []"
| "replace old new (c # cs) =
     (if old \<noteq> [] \<and> prefix old (c # cs) then new @ replace old new (drop (length old) (c # cs))
      else c # replace old new cs)"
  by pat_completeness auto
termination
  by (relation "measure (\<lambda>(old, new, s). length s)") (auto simp: neq_Nil_conv)

fun split_on :: "char \<Rightarrow> string \<Rightarrow> string list" where
  "split_on sep [] = [[]]"
| "split_on sep (c # cs) =
     (case split_on sep cs of
        [] \<Rightarrow> [[]]
      | w # ws \<Rightarrow> if c = sep then [] # w # ws else (c # w) # ws)"

subsection \<open>Retrieval strategies\<close>

text \<open>\<^verbatim>\<open>_scraperapi_structured(url)\<close>, lines 57-84: nothing without a key or for a URL that does
  not mention amazon; the JSON of a 200 reply when it is an object (for anything else
  \<^verbatim>\<open>data.keys()\<close> raises inside the \<^verbatim>\<open>try\<close>).\<close>

definition scraperapi_structured ::
  "env \<Rightarrow> string \<Rightarrow> log \<Rightarrow> (string \<times> json) list option \<times> log" where
  "scraperapi_structured E url s =
     (if SCRAPER_API_KEY E = [] then (None, s)
      else if \<not> contains ''amazon'' (lower url) then (None, s)
      else
        (case http E s (Structured url) of
           None \<Rightarrow> (None, s @ [Structured url])
         | Some r \<Rightarrow>
             if status_code r = 200 then
               (case r_json r of
                  Some (JDict d) \<Rightarrow> (Some d, s @ [Structured url])
                | _ \<Rightarrow> (None, s @ [Structured url]))
             else (None, s @ [Structured url])))"

text \<open>\<^verbatim>\<open>_scraperapi_html(url, render, timeout)\<close>, lines 92-112.\<close>

definition scraperapi_html ::
  "env \<Rightarrow> string \<Rightarrow> bool \<Rightarrow> nat \<Rightarrow> log \<Rightarrow> response option \<times> log" where
  "scraperapi_html E url render timeout s =
     (if SCRAPER_API_KEY E = [] then (None, s)
      else
        (case http E s (Proxy url render timeout) of
           None \<Rightarrow> (None, s @ [Proxy url render timeout])
         | Some r \<Rightarrow>
             if status_code r = 200 \<and> content_len r > 1000
             then (Some r, s @ [Proxy url render timeout])
             else (None, s @ [Proxy url render timeout])))"

text \<open>
  \<^verbatim>\<open>_scraperapi_html_flipkart_short(url, timeout)\<close>, lines 115-140. Both fetches are
  submitted; \<open>as_completed\<close> tells which of the two (0: not rendered, 1: rendered) finish
  before the deadline and in what order; the first finished response that is not blocked is
  returned.
\<close>

definition scraperapi_html_flipkart_short ::
  "env \<Rightarrow> string \<Rightarrow> nat \<Rightarrow> log \<Rightarrow> response option \<times> log" where
  "scraperapi_html_flipkart_short E url timeout s =
     (if SCRAPER_API_KEY E = [] then (None, s)
      else
        (case scraperapi_html E url False timeout s of (a, s1) \<Rightarrow>
         case scraperapi_html E url True timeout s1 of (b, s2) \<Rightarrow>
           (let order = remdups (filter (\<lambda>i. i < 2) (as_completed E s2));
                finished = map (\<lambda>i. if i = 0 then a else b) order
            in (case filter (\<lambda>resp. case resp of None \<Rightarrow> False | Some r \<Rightarrow> \<not> blocked (r_text r))
                       finished of
                  [] \<Rightarrow> None
                | resp # rest \<Rightarrow> resp, s2))))"

text \<open>\<^verbatim>\<open>_direct_fetch(url, referer, fast)\<close>, lines 147-177: \<^verbatim>\<open>cloudscraper\<close> when it is
  installed, then plain requests through the pool of user agents (the first only when
  \<^verbatim>\<open>fast\<close>).\<close>

fun direct_loop :: "env \<Rightarrow> string \<Rightarrow> nat list \<Rightarrow> log \<Rightarrow> response option \<times> log" where
  "direct_loop E url [] s = (None, s)"
| "direct_loop E url (ua # uas) s =
     (case http E s (Direct url ua) of
        None \<Rightarrow> direct_loop E url uas (s @ [Direct url ua])
      | Some r \<Rightarrow>
          if status_code r = 200 \<and> content_len r > 2000 then (Some r, s @ [Direct url ua])
          else direct_loop E url uas (s @ [Direct url ua]))"

definition direct_fetch :: "env \<Rightarrow> string \<Rightarrow> bool \<Rightarrow> log \<Rightarrow> response option \<times> log" where
  "direct_fetch E url fast s =
     (let ua_pool = (if fast then [0] else [0, 1, 2, 3]) in
      if HAS_CS E then
        (case http E s (Cloudscraper url) of
           None \<Rightarrow> direct_loop E url ua_pool (s @ [Cloudscraper url])
         | Some r \<Rightarrow>
             if status_code r = 200 \<and> content_len r > 2000 then (Some r, s @ [Cloudscraper url])
             else direct_loop E url ua_pool (s @ [Cloudscraper url]))
      else direct_loop E url ua_pool s)"

section \<open>Extraction\<close>

text \<open>The first element of a list for which a step succeeds: a \<^verbatim>\<open>for\<close> loop that returns or
  breaks at the first hit.\<close>

fun first_some :: "('a \<Rightarrow> 'b option) \<Rightarrow> 'a list \<Rightarrow> 'b option" where
  "first_some f [] = None"
| "first_some f (x # xs) = (case f x of Some y \<Rightarrow> Some y | None \<Rightarrow> first_some f xs)"

lemma first_some_Some: "first_some f xs = Some y \<Longrightarrow> \<exists>x \<in> set xs. f x = Some y"
  by (induction xs) (auto split: option.splits)

definition sq :: string where
  "sq = [CHR 0x27]"

definition dq :: string where
  "dq = [CHR 0x22]"

definition backslash :: string where
  "backslash = [CHR 0x5C]"

text \<open>The marketplace tests of \<^verbatim>\<open>resolve_url\<close>: some places accept three hosts, some two.\<close>

definition marketplace3 :: "string \<Rightarrow> bool" where
  "marketplace3 c = (contains ''amazon.in'' c \<or> contains ''amazon.com'' c \<or> contains ''flipkart.com'' c)"

definition marketplace2 :: "string \<Rightarrow> bool" where
  "marketplace2 c = (contains ''amazon.in'' c \<or> contains ''flipkart.com'' c)"

text \<open>\<^verbatim>\<open>el.get(a) or el.get(b) or ...\<close> on the attributes of an element.\<close>

definition attr :: "element \<Rightarrow> string \<Rightarrow> string option" where
  "attr el name = map_of (attrs el) name"

text \<open>\<^verbatim>\<open>_extract_product_url_from_text(text)\<close>, lines 392-419.\<close>

definition unescape_slashes :: "string \<Rightarrow> string" where
  "unescape_slashes c = replace (backslash @ ''u002F'') ''/'' (replace (backslash @ ''/'') ''/'' c)"

definition extract_product_url_from_text :: "env \<Rightarrow> string \<Rightarrow> string option" where
  "extract_product_url_from_text E txt =
     (if txt = [] then None
      else first_some
        (\<lambda>(blob, i). case re_search E (ProductUrlPat i) blob of
             None \<Rightarrow> None
           | Some (g0, g1) \<Rightarrow>
               (let c = unescape_slashes (strip_chars (sq @ dq @ ''<>'') (strip g0))
                in if marketplace3 c then Some c else None))
        [(txt, 0), (txt, 1), (unquote E txt, 0), (unquote E txt, 1)])"

subsection \<open>URL resolution\<close>

text \<open>
  \<^verbatim>\<open>resolve_url(url, fast)\<close>, lines 194-263. First the query parameters (lines 198-207, any
  exception there is swallowed); then the session requests under two or three header
  profiles (each in its own \<^verbatim>\<open>try\<close>); then the HTML proxy. The call of \<^verbatim>\<open>urlparse\<close> on line
  243 stands outside every \<^verbatim>\<open>try\<close>.
\<close>

definition redirect_params :: "string list" where
  "redirect_params = [''url'', ''u'', ''redirect'', ''redirect_url'', ''target'']"

text \<open>The body of the loop over the parameter names: \<^verbatim>\<open>qs\<close> is the result of \<^verbatim>\<open>parse_qs\<close>, a
  dictionary from names to the lists of their (already decoded) values.\<close>

definition query_target :: "env \<Rightarrow> (string \<times> string list) list \<Rightarrow> string \<Rightarrow> string option" where
  "query_target E qs k =
     (case map_of qs k of
        Some (v # vs) \<Rightarrow> (let c = unquote E v in if marketplace3 c then Some c else None)
      | _ \<Rightarrow> None)"

definition resolve_query :: "env \<Rightarrow> string \<Rightarrow> string option" where
  "resolve_query E url =
     (case urlparse E url of
        Inl e \<Rightarrow> None
      | Inr p \<Rightarrow> first_some (query_target E (parse_qs E (query p))) redirect_params)"

fun resolve_profiles :: "env \<Rightarrow> string \<Rightarrow> nat list \<Rightarrow> log \<Rightarrow> string option \<times> log" where
  "resolve_profiles E url [] s = (None, s)"
| "resolve_profiles E url (i # rest) s =
     (case http E s (Session url i) of
        None \<Rightarrow> resolve_profiles E url rest (s @ [Session url i])
      | Some r \<Rightarrow>
          (let final = (if r_url r \<noteq> [] then r_url r else url) in
           if marketplace2 final \<and> final \<noteq> url then (Some final, s @ [Session url i])
           else
             (case (if location r \<noteq> [] then urljoin E url (location r) else Inr []) of
                Inl e \<Rightarrow> resolve_profiles E url rest (s @ [Session url i])
              | Inr c \<Rightarrow>
                  if location r \<noteq> [] \<and> marketplace3 c then (Some c, s @ [Session url i])
                  else
                    (case extract_product_url_from_text E (r_text r) of
                       Some c' \<Rightarrow> (Some c', s @ [Session url i])
                     | None \<Rightarrow> resolve_profiles E url rest (s @ [Session url i])))))"

definition resolve_meta :: "soup \<Rightarrow> string option" where
  "resolve_meta sp =
     first_some
       (\<lambda>sel. case select_one sp sel of
            None \<Rightarrow> None
          | Some el \<Rightarrow>
              (let c = (case sor (attr el ''content'') (attr el ''href'') of
                          None \<Rightarrow> [] | Some c \<Rightarrow> c)
               in if marketplace2 c then Some c else None))
       [''meta[property='' @ dq @ ''og:url'' @ dq @ '']'',
        ''link[rel='' @ dq @ ''canonical'' @ dq @ '']'']"

definition resolve_url :: "env \<Rightarrow> string \<Rightarrow> bool \<Rightarrow> log \<Rightarrow> (pyerr + string) \<times> log" where
  "resolve_url E url fast s =
     (case resolve_query E url of
        Some c \<Rightarrow> (Inr c, s)
      | None \<Rightarrow>
          (case resolve_profiles E url (if fast then [0, 1] else [0, 1, 2]) s of
             (Some c, s1) \<Rightarrow> (Inr c, s1)
           | (None, s1) \<Rightarrow>
               (case urlparse E url of
                  Inl e \<Rightarrow> (Inl e, s1)
                | Inr p \<Rightarrow>
                    (let is_fk_short = contains ''dl.flipkart.com'' (lower (netloc p));
                         scraper_timeout =
                           (if fast \<and> is_fk_short then 15 else if is_fk_short then 40 else 30)
                     in case scraperapi_html E url is_fk_short scraper_timeout s1 of
                          (None, s2) \<Rightarrow> (Inr url, s2)
                        | (Some r, s2) \<Rightarrow>
                            (case resolve_meta (BeautifulSoup E (r_text r)) of
                               Some c \<Rightarrow> (Inr c, s2)
                             | None \<Rightarrow>
                                 (case extract_product_url_from_text E (r_text r) of
                                    Some c \<Rightarrow> (Inr c, s2)
                                  | None \<Rightarrow> (Inr url, s2)))))))"

subsection \<open>Structured markup and meta tags\<close>

text \<open>
  \<^verbatim>\<open>_json_ld(soup)\<close>, lines 288-305, returns title, price and image. \<^verbatim>\<open>item.get\<close> is called
  on every item for each of the three that is still missing, and raises when the item is not
  an object; nothing catches that.
\<close>

fun ld_image :: "json \<Rightarrow> string option" where
  "ld_image (JStr s) = Some s"
| "ld_image (JList (JStr s # rest)) = Some s"
| "ld_image v = None"

definition falsy_str :: "string option \<Rightarrow> bool" where
  "falsy_str a = (case a of Some (c # cs) \<Rightarrow> False | _ \<Rightarrow> True)"

definition falsy_price :: "rat option \<Rightarrow> bool" where
  "falsy_price a = (case a of None \<Rightarrow> True | Some v \<Rightarrow> v = 0)"

definition ld_item ::
  "env \<Rightarrow> json \<Rightarrow> string option \<times> rat option \<times> string option
     \<Rightarrow> pyerr + string option \<times> rat option \<times> string option" where
  "ld_item E item acc =
     (case acc of (title, pr, img) \<Rightarrow>
        (case item of
           JDict d \<Rightarrow>
             Inr (if falsy_str title
                    then (case jget d ''name'' of
                            JStr s \<Rightarrow> (if strip s = [] then None else Some (strip s))
                          | _ \<Rightarrow> title)
                    else title,
                  if falsy_price pr
                    then (case jget d ''offers'' of
                            JDict off \<Rightarrow> price_val E (jor (jget off ''price'') (jget off ''lowPrice''))
                          | JList (JDict off # rest) \<Rightarrow> price_val E (jget off ''price'')
                          | JList (v # rest) \<Rightarrow> price None
                          | _ \<Rightarrow> pr)
                    else pr,
                  if falsy_str img then ld_image (jget d ''image'') else img)
         | _ \<Rightarrow>
             if falsy_str title \<or> falsy_str img \<or> falsy_price pr then Inl AttributeError
             else Inr acc))"

fun ld_items ::
  "env \<Rightarrow> json list \<Rightarrow> string option \<times> rat option \<times> string option
     \<Rightarrow> pyerr + string option \<times> rat option \<times> string option" where
  "ld_items E [] acc = Inr acc"
| "ld_items E (item # rest) acc =
     (case ld_item E item acc of Inl e \<Rightarrow> Inl e | Inr acc' \<Rightarrow> ld_items E rest acc')"

fun ld_scripts_loop ::
  "env \<Rightarrow> string list \<Rightarrow> string option \<times> rat option \<times> string option
     \<Rightarrow> pyerr + string option \<times> rat option \<times> string option" where
  "ld_scripts_loop E [] acc = Inr acc"
| "ld_scripts_loop E (sc # rest) acc =
     (if strip sc = [] then ld_scripts_loop E rest acc
      else
        (case json_loads E (strip sc) of
           None \<Rightarrow> ld_scripts_loop E rest acc
         | Some data \<Rightarrow>
             (case ld_items E (case data of JList l \<Rightarrow> l | _ \<Rightarrow> [data]) acc of
                Inl e \<Rightarrow> Inl e
              | Inr acc' \<Rightarrow> ld_scripts_loop E rest acc')))"

definition json_ld :: "env \<Rightarrow> soup \<Rightarrow> pyerr + string option \<times> rat option \<times> string option" where
  "json_ld E sp = ld_scripts_loop E (ld_scripts sp) (None, None, None)"

text \<open>\<^verbatim>\<open>_og(soup)\<close>, lines 307-322.\<close>

definition meta :: "string \<Rightarrow> string \<Rightarrow> string" where
  "meta key val = ''meta['' @ key @ ''='' @ dq @ val @ dq @ '']''"

definition meta_content :: "soup \<Rightarrow> string \<Rightarrow> string option" where
  "meta_content sp sel =
     (case select_one sp sel of
        None \<Rightarrow> None
      | Some el \<Rightarrow>
          (case attr el ''content'' of
             None \<Rightarrow> None
           | Some c \<Rightarrow> if strip c = [] then None else Some (strip c)))"

definition og :: "soup \<Rightarrow> string option \<times> rat option \<times> string option" where
  "og sp =
     (let title = meta_content sp (meta ''property'' ''og:title'');
          img = meta_content sp (meta ''property'' ''og:image'');
          pr = (case select_one sp (meta ''property'' ''product:price:amount'') of
                  None \<Rightarrow> None
                | Some el \<Rightarrow> price (attr el ''content''));
          title = (if falsy_str title then meta_content sp (meta ''name'' ''twitter:title'') else title);
          img = (if falsy_str img then meta_content sp (meta ''name'' ''twitter:image'') else img)
      in (title, pr, img))"

subsection \<open>Prices and images in scripts\<close>

text \<open>\<^verbatim>\<open>_extract_price_from_scripts\<close>, lines 330-349; \<^verbatim>\<open>_extract_image_from_scripts\<close>, lines
  351-366; \<^verbatim>\<open>_extract_flipkart_pid_price\<close>, lines 369-389.\<close>

definition truthy_price_of :: "string \<Rightarrow> rat option" where
  "truthy_price_of g = (case price (Some g) of None \<Rightarrow> None | Some v \<Rightarrow> if v \<noteq> 0 then Some v else None)"

definition extract_price_from_scripts :: "env \<Rightarrow> string \<Rightarrow> rat option" where
  "extract_price_from_scripts E html =
     first_some
       (\<lambda>i. case re_search E (ScriptPricePat i) html of
               None \<Rightarrow> None
             | Some (g0, g1) \<Rightarrow> truthy_price_of g1)
       [0, 1, 2, 3, 4, 5, 6, 7, 8, 9]"

definition extract_image_from_scripts :: "env \<Rightarrow> string \<Rightarrow> string option" where
  "extract_image_from_scripts E html =
     first_some
       (\<lambda>i. case re_search E (ScriptImagePat i) html of
               None \<Rightarrow> None
             | Some (g0, g1) \<Rightarrow>
                 (let u = replace (backslash @ ''/'') ''/'' (replace (backslash @ ''u002F'') ''/'' g1)
                  in if norm_img (Some u) \<noteq> None then Some u else None))
       [0, 1, 2, 3, 4, 5]"

definition extract_flipkart_pid_price :: "env \<Rightarrow> string \<Rightarrow> string \<Rightarrow> rat option" where
  "extract_flipkart_pid_price E html url =
     (case urlparse E url of
        Inl e \<Rightarrow> None
      | Inr p \<Rightarrow>
          (case map_of (parse_qs E (query p)) ''pid'' of
             Some (pid # rest) \<Rightarrow>
               if pid = [] then None
               else first_some
                 (\<lambda>i. case re_search E (PidPricePat i pid) html of
                         None \<Rightarrow> None
                       | Some (g0, g1) \<Rightarrow> truthy_price_of g1)
                 [0, 1, 2]
           | _ \<Rightarrow> None))"

section \<open>Specifications of a product\<close>

text \<open>
  The pairs handed to \<^verbatim>\<open>_normalize_specs\<close> hold arbitrary values; \<^verbatim>\<open>_clean_spec_text\<close> maps
  \<^verbatim>\<open>None\<close> to the empty text and any other value to its \<^verbatim>\<open>str\<close>.
\<close>

definition text_of :: "env \<Rightarrow> json \<Rightarrow> string option" where
  "text_of E v = (case v of JNull \<Rightarrow> None | _ \<Rightarrow> Some (str_of E v))"

text \<open>\<^verbatim>\<open>isinstance(v, (dict, list))\<close> and \<^verbatim>\<open>isinstance(v, (str, int, float))\<close> (a \<^verbatim>\<open>bool\<close> is an
  \<^verbatim>\<open>int\<close>).\<close>

fun is_container :: "json \<Rightarrow> bool" where
  "is_container (JDict d) = True"
| "is_container (JList l) = True"
| "is_container v = False"

fun is_scalar :: "json \<Rightarrow> bool" where
  "is_scalar (JStr t) = True"
| "is_scalar (JNum n) = True"
| "is_scalar (JBool b) = True"
| "is_scalar v = False"

definition underscores_to_spaces :: "string \<Rightarrow> string" where
  "underscores_to_spaces k = map (\<lambda>c. if c = CHR ''_'' then CHR '' '' else c) k"

text \<open>\<^verbatim>\<open>_collect_ld_props(node, out_pairs)\<close>, lines 501-517: the pairs appended, in order.\<close>

definition ld_prop :: "env \<Rightarrow> (string \<times> json) list \<Rightarrow> string option \<times> string option" where
  "ld_prop E p = (text_of E (jor (jget p ''name'') (jget p ''key'')), text_of E (jget p ''value''))"

definition ld_props_of :: "env \<Rightarrow> json \<Rightarrow> (string option \<times> string option) list" where
  "ld_props_of E ap =
     (case ap of
        JList ps \<Rightarrow> concat (map (\<lambda>p. case p of JDict pd \<Rightarrow> [ld_prop E pd] | _ \<Rightarrow> []) ps)
      | JDict pd \<Rightarrow> [ld_prop E pd]
      | _ \<Rightarrow> [])"

fun collect_ld_props :: "env \<Rightarrow> json \<Rightarrow> (string option \<times> string option) list"
  and collect_ld_list :: "env \<Rightarrow> json list \<Rightarrow> (string option \<times> string option) list"
  and collect_ld_items :: "env \<Rightarrow> (string \<times> json) list \<Rightarrow> (string option \<times> string option) list"
where
  "collect_ld_props E (JDict d) = ld_props_of E (jget d ''additionalProperty'') @ collect_ld_items E d"
| "collect_ld_props E (JList l) = collect_ld_list E l"
| "collect_ld_props E (JStr t) = []"
| "collect_ld_props E (JNum n) = []"
| "collect_ld_props E (JBool b) = []"
| "collect_ld_props E JNull = []"
| "collect_ld_list E [] = []"
| "collect_ld_list E (x # xs) = collect_ld_props E x @ collect_ld_list E xs"
| "collect_ld_items E [] = []"
| "collect_ld_items E ((k, v) # kvs) =
     (if k \<in> set [''@context'', ''@type'', ''url'', ''image'', ''name'', ''offers'', ''description'']
        then []
      else if is_container v then collect_ld_props E v
      else [])
     @ collect_ld_items E kvs"

text \<open>\<^verbatim>\<open>_extract_specs_from_json_ld(soup)\<close>, lines 520-531.\<close>

definition extract_specs_from_json_ld :: "env \<Rightarrow> soup \<Rightarrow> (string option \<times> string option) list" where
  "extract_specs_from_json_ld E sp =
     concat (map (\<lambda>sc. if strip sc = [] then []
                       else (case json_loads E (strip sc) of
                               None \<Rightarrow> []
                             | Some data \<Rightarrow> collect_ld_props E data))
                 (ld_scripts sp))"

definition AMZN_SPEC_SELS :: "string list" where
  "AMZN_SPEC_SELS =
     [''#productDetails_techSpec_section_1'', ''#productDetails_techSpec_section_2'',
      ''#technicalSpecifications_section_1'', ''#productDetails_detailBullets_sections1'',
      ''#detailBullets_feature_div'', ''#poExpander table'',
      ''#productOverview_feature_div table'', ''table.a-normal.a-spacing-micro'']"

definition FK_SPEC_SELS :: "string list" where
  "FK_SPEC_SELS =
     [''table._0ZhAN9'', ''table._14cfVK'', ''div._3k-BhJ table'', ''div._1UhVsV table'',
      ''div.X3BRps table'', ''div.GNDEQ- table'']"

definition extract_amazon_specs :: "env \<Rightarrow> soup \<Rightarrow> (string \<times> string) list" where
  "extract_amazon_specs E sp =
     normalize_specs (table_pairs sp AMZN_SPEC_SELS @ extract_specs_from_json_ld E sp)"

definition extract_flipkart_specs :: "env \<Rightarrow> soup \<Rightarrow> (string \<times> string) list" where
  "extract_flipkart_specs E sp =
     normalize_specs (table_pairs sp FK_SPEC_SELS @ extract_specs_from_json_ld E sp)"

text \<open>\<^verbatim>\<open>_extract_specs_from_structured(data)\<close>, lines 565-601, with its inner \<^verbatim>\<open>collect\<close>.\<close>

fun collect :: "env \<Rightarrow> json \<Rightarrow> (string option \<times> string option) list"
  and collect_list :: "env \<Rightarrow> json list \<Rightarrow> (string option \<times> string option) list"
  and collect_items :: "env \<Rightarrow> (string \<times> json) list \<Rightarrow> (string option \<times> string option) list"
where
  "collect E (JDict d) =
     (if map_of d ''name'' \<noteq> None \<and> map_of d ''value'' \<noteq> None \<and> \<not> is_container (jget d ''value'')
        then [(text_of E (jget d ''name''), text_of E (jget d ''value''))]
      else [])
     @ collect_items E d"
| "collect E (JList l) = collect_list E l"
| "collect E (JStr t) = []"
| "collect E (JNum n) = []"
| "collect E (JBool b) = []"
| "collect E JNull = []"
| "collect_list E [] = []"
| "collect_list E (x # xs) = collect E x @ collect_list E xs"
| "collect_items E [] = []"
| "collect_items E ((k, v) # kvs) =
     (if k \<in> set [''@context'', ''@type'', ''url'', ''image'', ''description''] then []
      else if is_container v then collect E v
      else if is_scalar v \<and> k \<notin> set [''name'', ''value'']
        then [(Some (underscores_to_spaces k), text_of E v)]
      else [])
     @ collect_items E kvs"

definition candidate_keys :: "string list" where
  "candidate_keys =
     [''specifications'', ''specs'', ''technical_details'', ''product_details'',
      ''attributes'', ''details'', ''feature_bullets'', ''about_this_item'']"

definition fallback_keys :: "string list" where
  "fallback_keys =
     [''brand'', ''model'', ''color'', ''size'', ''material'', ''item_weight'',
      ''memory_storage_capacity'', ''screen_size'', ''operating_system'',
      ''ram_memory_installed_size'']"

definition extract_specs_from_structured :: "env \<Rightarrow> (string \<times> json) list \<Rightarrow> (string \<times> string) list" where
  "extract_specs_from_structured E data =
     (let pairs = concat (map (\<lambda>key. if map_of data key \<noteq> None then collect E (jget data key) else [])
                              candidate_keys);
          pairs = (if pairs = []
                   then concat (map (\<lambda>key. if is_scalar (jget data key)
                                                  \<and> strip (str_of E (jget data key)) \<noteq> []
                                             then [(Some (underscores_to_spaces key),
                                                    text_of E (jget data key))]
                                             else [])
                                    fallback_keys)
                   else pairs)
      in normalize_specs pairs)"

section \<open>The scrapers\<close>

subsection \<open>Reading a page\<close>

text \<open>The title loop shared by both scrapers: the first selector whose element has a text of
  more than three characters.\<close>

definition select_title :: "soup \<Rightarrow> string list \<Rightarrow> string option" where
  "select_title sp sels =
     first_some
       (\<lambda>sel. case select_one sp sel of
                 None \<Rightarrow> None
               | Some el \<Rightarrow>
                   (let t = get_text_strip el in if t \<noteq> [] \<and> length t > 3 then Some t else None))
       sels"

text \<open>The price loop shared by both scrapers: the first selector whose element gives a
  price, read from the attribute \<^verbatim>\<open>content\<close> when the element has one, else from its text.\<close>

definition select_price :: "soup \<Rightarrow> string list \<Rightarrow> rat option" where
  "select_price sp sels =
     first_some
       (\<lambda>sel. case select_one sp sel of
                 None \<Rightarrow> None
               | Some el \<Rightarrow>
                   truthy_price_of (case attr el ''content'' of Some c \<Rightarrow> c | None \<Rightarrow> get_text el))
       sels"

text \<open>\<^verbatim>\<open>not resp or _blocked(resp.text)\<close>\<close>

definition unusable :: "response option \<Rightarrow> bool" where
  "unusable resp = (case resp of None \<Rightarrow> True | Some r \<Rightarrow> blocked (r_text r))"

subsection \<open>Amazon\<close>

definition AMZN_TITLE_SELS :: "string list" where
  "AMZN_TITLE_SELS =
     [''#productTitle'', ''span#productTitle'', ''h1.a-size-large'', ''#title span'', ''h1 span'']"

definition AMZN_PRICE_SELS :: "string list" where
  "AMZN_PRICE_SELS =
     [''span.a-price.priceToPay span.a-offscreen'', ''.priceToPay span.a-offscreen'',
      ''#corePriceDisplay_desktop_feature_div span.a-offscreen'',
      ''#corePriceDisplay_desktop_feature_div .a-price-whole'', ''.a-price .a-offscreen'',
      ''#priceblock_ourprice'', ''#priceblock_dealprice'', ''#priceblock_saleprice'',
      ''.a-price-whole'', ''span[data-a-color='' @ sq @ ''price'' @ sq @ ''] .a-offscreen'',
      ''#apex_offerDisplay_desktop span.a-offscreen'',
      ''.reinventPricePriceToPayMargin span.a-offscreen'']"

definition AMZN_IMG_SELS :: "string list" where
  "AMZN_IMG_SELS =
     [''#landingImage'', ''#imgTagWrapperId img'', ''#imgBlkFront'', ''img#main-image'',
      ''#imageBlock img'', ''.imgTagWrapper img'']"

text \<open>
  \<^verbatim>\<open>_parse_amazon_structured(data)\<close>, lines 636-668, on the dictionary of the structured
  endpoint. \<^verbatim>\<open>.strip()\<close> is called on whatever \<^verbatim>\<open>name\<close> or \<^verbatim>\<open>product_title\<close> holds, and raises
  when that is a truthy value other than a string.
\<close>

definition structured_title :: "(string \<times> json) list \<Rightarrow> pyerr + string option" where
  "structured_title data =
     (case jor (jget data ''name'') (jor (jget data ''product_title'') (JStr [])) of
        JStr t \<Rightarrow> Inr (if strip t = [] then None else Some (strip t))
      | _ \<Rightarrow> Inl AttributeError)"

definition price_of_keys :: "env \<Rightarrow> (string \<times> json) list \<Rightarrow> string list \<Rightarrow> rat option" where
  "price_of_keys E d keys =
     first_some (\<lambda>key. if truthy (jget d key) then truthy_price_of (str_of E (jget d key)) else None)
       keys"

definition structured_price :: "env \<Rightarrow> (string \<times> json) list \<Rightarrow> rat option" where
  "structured_price E data =
     (let pr = price_of_keys E data
                 [''price'', ''pricing'', ''list_price'', ''sale_price'', ''original_price'']
      in if falsy_price pr
         then (case jget data ''pricing'' of
                 JDict pricing \<Rightarrow> price_of_keys E pricing [''current_price'', ''price'', ''sale_price'']
               | _ \<Rightarrow> pr)
         else pr)"

definition structured_image :: "env \<Rightarrow> (string \<times> json) list \<Rightarrow> string option" where
  "structured_image E data =
     (let first = (case jor (jget data ''images'') (jor (jget data ''product_photos'') (JList [])) of
                     JList (JStr t # rest) \<Rightarrow> JStr t
                   | _ \<Rightarrow> JNull);
          img = (if truthy first then first
                 else jor (jget data ''main_image'') (jor (jget data ''image'') (jget data ''thumbnail'')))
      in norm_img_val E img)"

definition parse_amazon_structured :: "env \<Rightarrow> (string \<times> json) list \<Rightarrow> pyerr + product option" where
  "parse_amazon_structured E data =
     (if data = [] then Inr None
      else
        (case structured_title data of
           Inl e \<Rightarrow> Inl e
         | Inr title \<Rightarrow>
             (let pr = structured_price E data;
                  img = structured_image E data;
                  url = jor (jget data ''url'') (jor (jget data ''product_url'') (JStr []));
                  avail = jor (jget data ''availability'') (JStr ''In Stock'');
                  specs = extract_specs_from_structured E data
              in if falsy_str title \<and> falsy_price pr \<and> falsy_str img then Inr None
                 else Inr (Some \<lparr>p_platform = ''Amazon'', p_title = title, p_price = pr,
                                  p_image_url = img, p_url = url, p_availability = avail,
                                  p_specs = specs\<rparr>))))"

text \<open>
  The image loop of \<^verbatim>\<open>scrape_amazon\<close>, lines 711-721. The variable \<^verbatim>\<open>img\<close> keeps the value of
  the last element looked at, also when that value does not start with \<^verbatim>\<open>http\<close>.
\<close>

definition dynamic_image :: "env \<Rightarrow> element \<Rightarrow> string option" where
  "dynamic_image E el =
     (case attr el ''data-a-dynamic-image'' of
        None \<Rightarrow> None
      | Some dyn \<Rightarrow>
          if dyn = [] then None
          else (case json_loads E dyn of
                  Some (JDict ((k, v) # rest)) \<Rightarrow> Some k
                | _ \<Rightarrow> None))"

fun amazon_image_loop :: "env \<Rightarrow> soup \<Rightarrow> string list \<Rightarrow> string option \<Rightarrow> string option" where
  "amazon_image_loop E sp [] img = img"
| "amazon_image_loop E sp (sel # sels) img =
     (case select_one sp sel of
        None \<Rightarrow> amazon_image_loop E sp sels img
      | Some el \<Rightarrow>
          (case dynamic_image E el of
             Some k \<Rightarrow> Some k
           | None \<Rightarrow>
               (case sor (attr el ''src'') (sor (attr el ''data-old-hires'') (attr el ''data-src'')) of
                  None \<Rightarrow> amazon_image_loop E sp sels None
                | Some t \<Rightarrow>
                    if t \<noteq> [] \<and> startswith t ''http'' then Some t
                    else amazon_image_loop E sp sels (Some t))))"

text \<open>The part of \<^verbatim>\<open>scrape_amazon\<close> that reads the page, lines 695-739.\<close>

definition amazon_page :: "env \<Rightarrow> string \<Rightarrow> string \<Rightarrow> pyerr + product option" where
  "amazon_page E url html =
     (let sp = BeautifulSoup E html;
          title = select_title sp AMZN_TITLE_SELS;
          pr = por (select_price sp AMZN_PRICE_SELS) (extract_price_from_scripts E html);
          img = sor (amazon_image_loop E sp AMZN_IMG_SELS None) (extract_image_from_scripts E html)
      in case json_ld E sp of
           Inl e \<Rightarrow> Inl e
         | Inr (ld_t, ld_p, ld_i) \<Rightarrow>
             (case og sp of (og_t, og_p, og_i) \<Rightarrow>
                (let title = sor title (sor ld_t og_t);
                     pr = por pr (por ld_p og_p);
                     img = norm_img (sor img (sor ld_i og_i));
                     specs = extract_amazon_specs E sp;
                     avail = (case select_one sp ''#availability span'' of
                                None \<Rightarrow> ''In Stock''
                              | Some el \<Rightarrow>
                                  if get_text_strip el \<noteq> [] then get_text_strip el else ''In Stock'')
                 in if falsy_str title \<and> falsy_price pr \<and> falsy_str img then Inr None
                    else Inr (Some \<lparr>p_platform = ''Amazon'', p_title = title, p_price = pr,
                                     p_image_url = img, p_url = JStr url,
                                     p_availability = JStr avail, p_specs = specs\<rparr>))))"

text \<open>\<^verbatim>\<open>scrape_amazon(url)\<close>, lines 670-739: the structured endpoint, then the HTML proxy, then
  the direct fetch.\<close>

definition amazon_html :: "env \<Rightarrow> string \<Rightarrow> log \<Rightarrow> (pyerr + product option) \<times> log" where
  "amazon_html E url s =
     (case scraperapi_html E url False 60 s of (resp, s1) \<Rightarrow>
      case (if unusable resp then direct_fetch E url False s1 else (resp, s1)) of (resp', s2) \<Rightarrow>
        (case resp' of
           None \<Rightarrow> (Inr None, s2)
         | Some r \<Rightarrow> if blocked (r_text r) then (Inr None, s2) else (amazon_page E url (r_text r), s2)))"

definition scrape_amazon :: "env \<Rightarrow> string \<Rightarrow> log \<Rightarrow> (pyerr + product option) \<times> log" where
  "scrape_amazon E url s =
     (case scraperapi_structured E url s of (struct, s1) \<Rightarrow>
        (case struct of
           None \<Rightarrow> amazon_html E url s1
         | Some data \<Rightarrow>
             (case parse_amazon_structured E data of
                Inl e \<Rightarrow> (Inl e, s1)
              | Inr None \<Rightarrow> amazon_html E url s1
              | Inr (Some result) \<Rightarrow>
                  if \<not> falsy_str (p_title result) \<or> \<not> falsy_price (p_price result)
                  then (Inr (Some result), s1)
                  else amazon_html E url s1)))"

subsection \<open>Flipkart\<close>

definition FK_TITLE_SELS :: "string list" where
  "FK_TITLE_SELS =
     [''span.VU-ZEz'', ''h1.yhB1nd'', ''.B_NuCI'', ''span.B_NuCI'',
      ''span[class*='' @ sq @ ''VU-ZEz'' @ sq @ '']'',
      ''div[class*='' @ sq @ ''GNDEQ-'' @ sq @ ''] h1'', ''div.col.col-7-12 h1'', ''h1'']"

definition FK_PRICE_SELS :: "string list" where
  "FK_PRICE_SELS =
     [''div.Nx9bqj.CxhGGd'', ''div.Nx9bqj'', ''div[class*='' @ sq @ ''Nx9bqj'' @ sq @ '']'',
      ''._30jeq3._16Jk6d'', ''._30jeq3'', ''div._16Jk6d'',
      ''[itemprop='' @ sq @ ''price'' @ sq @ '']'', ''div.UOCQB1'', ''div._3tbKJL'',
      ''div.CEmiEU div.Nx9bqj'']"

definition FK_IMG_SELS :: "string list" where
  "FK_IMG_SELS =
     [''img.DByuf4'', ''img._396cs4'', ''img._2r_T1I'', ''img._53J4C-'',
      ''img[src*='' @ sq @ ''rukminim'' @ sq @ '']'', ''img[src*='' @ sq @ ''flixcart'' @ sq @ '']'',
      ''div._2r_T1I img'', ''div._3kidU img'']"

definition FK_SHORT_HOSTS :: "string list" where
  "FK_SHORT_HOSTS = [''dl.flipkart.com'', ''fkrt.cc'', ''fkrt.it'', ''fkrt.to'']"

text \<open>The three retrieval strategies of \<^verbatim>\<open>scrape_flipkart\<close>, lines 781-796.\<close>

definition flipkart_fetch :: "env \<Rightarrow> string \<Rightarrow> bool \<Rightarrow> log \<Rightarrow> response option \<times> log" where
  "flipkart_fetch E url is_short_fk s =
     (case (if is_short_fk
            then (case scraperapi_html_flipkart_short E url 15 s of (r, s') \<Rightarrow>
                    if unusable r then scraperapi_html E url False 20 s' else (r, s'))
            else scraperapi_html E url False 25 s) of (resp1, s1) \<Rightarrow>
      case (if unusable resp1 then direct_fetch E url True s1 else (resp1, s1)) of (resp2, s2) \<Rightarrow>
        if unusable resp2 \<and> SCRAPER_API_KEY E \<noteq> [] \<and> \<not> is_short_fk
        then scraperapi_html E url True 25 s2
        else (resp2, s2))"

text \<open>The image loop of \<^verbatim>\<open>scrape_flipkart\<close>, lines 837-843: of a source that starts with
  \<^verbatim>\<open>http\<close>, the part before the first comma and of that the first word.\<close>

definition flipkart_image :: "soup \<Rightarrow> string option" where
  "flipkart_image sp =
     first_some
       (\<lambda>sel. case select_one sp sel of
                 None \<Rightarrow> None
               | Some el \<Rightarrow>
                   (case sor (attr el ''src'') (attr el ''data-src'') of
                      None \<Rightarrow> None
                    | Some src \<Rightarrow>
                        if src \<noteq> [] \<and> startswith src ''http''
                        then Some (takeWhile (\<lambda>c. \<not> isspace c)
                                     (dropWhile isspace (takeWhile (\<lambda>c. c \<noteq> CHR '','') src)))
                        else None))
       FK_IMG_SELS"

text \<open>
  The part of \<^verbatim>\<open>scrape_flipkart\<close> that reads the page, lines 802-854. It returns the URL as
  well, which the canonical link of the page may have replaced.
\<close>

definition flipkart_page :: "env \<Rightarrow> string \<Rightarrow> string \<Rightarrow> pyerr + string \<times> product option" where
  "flipkart_page E url0 html =
     (let sp = BeautifulSoup E html in
      case (case select_one sp (''link[rel='' @ dq @ ''canonical'' @ dq @ '']'') of
              None \<Rightarrow> Inr url0
            | Some canon \<Rightarrow>
                (let href = strip (case attr canon ''href'' of None \<Rightarrow> [] | Some h \<Rightarrow> h)
                 in if href \<noteq> [] then urljoin E url0 href else Inr url0)) of
        Inl e \<Rightarrow> Inl e
      | Inr url \<Rightarrow>
          (let title = select_title sp FK_TITLE_SELS;
               pr = por (select_price sp FK_PRICE_SELS) (extract_price_from_scripts E html);
               pr = (case extract_flipkart_pid_price E html url of
                       None \<Rightarrow> pr
                     | Some pid_price \<Rightarrow>
                         if pid_price \<noteq> 0
                            \<and> (case pr of
                                 None \<Rightarrow> True
                               | Some p \<Rightarrow> p = 0 \<or> (p < 1000 \<and> pid_price \<ge> 1000))
                         then Some pid_price else pr);
               img = sor (flipkart_image sp) (extract_image_from_scripts E html)
           in case json_ld E sp of
                Inl e \<Rightarrow> Inl e
              | Inr (ld_t, ld_p, ld_i) \<Rightarrow>
                  (case og sp of (og_t, og_p, og_i) \<Rightarrow>
                     (let title = sor title (sor ld_t og_t);
                          pr = por pr (por ld_p og_p);
                          img = norm_img (sor img (sor ld_i og_i));
                          specs = extract_flipkart_specs E sp
                      in if falsy_str title \<and> falsy_price pr \<and> falsy_str img then Inr (url, None)
                         else Inr (url, Some \<lparr>p_platform = ''Flipkart'', p_title = title,
                                               p_price = pr, p_image_url = img, p_url = JStr url,
                                               p_availability = JStr ''In Stock'',
                                               p_specs = specs\<rparr>)))))"

text \<open>
  \<^verbatim>\<open>scrape_flipkart(url)\<close>, lines 774-866. The function calls itself on the resolved URL
  (line 863); the first argument of the model bounds the depth of these calls as the recursion
  limit of the interpreter does, and a call beyond it is the \<^verbatim>\<open>RecursionError\<close>.
\<close>

fun scrape_flipkart :: "env \<Rightarrow> nat \<Rightarrow> string \<Rightarrow> log \<Rightarrow> (pyerr + product option) \<times> log" where
  "scrape_flipkart E 0 url s = (Inl RecursionError, s)"
| "scrape_flipkart E (Suc depth) url s =
     (case urlparse E url of
        Inl e \<Rightarrow> (Inl e, s)
      | Inr parts \<Rightarrow>
          (case flipkart_fetch E url (lower (netloc parts) \<in> set FK_SHORT_HOSTS) s of (resp, s1) \<Rightarrow>
             (case resp of
                None \<Rightarrow> (Inr None, s1)
              | Some r \<Rightarrow>
                  if blocked (r_text r) then (Inr None, s1)
                  else
                    (case flipkart_page E url (r_text r) of
                       Inl e \<Rightarrow> (Inl e, s1)
                     | Inr (url', Some result) \<Rightarrow> (Inr (Some result), s1)
                     | Inr (url', None) \<Rightarrow>
                         if lower (netloc parts) \<in> set FK_SHORT_HOSTS
                         then (case resolve_url E url' False s1 of
                                 (Inl e, s2) \<Rightarrow> (Inl e, s2)
                               | (Inr resolved, s2) \<Rightarrow>
                                   if resolved \<noteq> [] \<and> resolved \<noteq> url'
                                   then scrape_flipkart E depth resolved s2
                                   else (Inr None, s2))
                         else (Inr None, s1)))))"

section \<open>The entry point\<close>

definition SHORT_HOSTS :: "string list" where
  "SHORT_HOSTS =
     [''amzn.in'', ''amzn.to'', ''amzn.eu'', ''a.co'', ''fkrt.cc'', ''fkrt.it'', ''fkrt.to'',
      ''dl.flipkart.com'', ''bit.ly'', ''t.co'', ''ow.ly'', ''goo.gl'', ''tinyurl.com'']"

text \<open>\<^verbatim>\<open>_is_short(url)\<close>, lines 190-192; \<^verbatim>\<open>lstrip("www.")\<close> takes the characters \<^verbatim>\<open>w\<close> and \<^verbatim>\<open>.\<close>
  off the front.\<close>

definition is_short :: "env \<Rightarrow> string \<Rightarrow> pyerr + bool" where
  "is_short E url =
     (case urlparse E url of
        Inl e \<Rightarrow> Inl e
      | Inr parts \<Rightarrow> Inr (lstrip_chars ''www.'' (lower (netloc parts)) \<in> set SHORT_HOSTS))"

text \<open>
  \<^verbatim>\<open>_name_from_url(url)\<close>, lines 911-925; every exception inside is swallowed.
  \<^verbatim>\<open>re.sub(r'[-_]+', ' ', t)\<close> turns each run of hyphens and underscores into one space;
  \<^verbatim>\<open>max(segs, key=len)\<close> is the first segment of the greatest length.
\<close>

definition dash :: "char \<Rightarrow> bool" where
  "dash c = (c = CHR ''-'' \<or> c = CHR ''_'')"

function dashes_to_space :: "string \<Rightarrow> string" where
  "dashes_to_space [] = []"
| "dashes_to_space (c # cs) =
     (if dash c then CHR '' '' # dashes_to_space (dropWhile dash cs)
      else c # dashes_to_space cs)"
  by pat_completeness auto
termination
  by (relation "measure length") (auto simp: length_dropWhile_le le_imp_less_Suc)

definition longest :: "string \<Rightarrow> string list \<Rightarrow> string" where
  "longest x xs = foldl (\<lambda>b a. if length a > length b then a else b) x xs"

definition name_from_url :: "env \<Rightarrow> string \<Rightarrow> string option" where
  "name_from_url E url =
     (case urlparse E url of
        Inl e \<Rightarrow> None
      | Inr parts \<Rightarrow>
          (let pth = unquote E (path parts);
               host = lower (netloc parts)
           in case (if contains ''amazon'' host then re_search E (NamePat 0) pth else None) of
                Some (g0, g1) \<Rightarrow> Some (strip (dashes_to_space g1))
              | None \<Rightarrow>
                  (case (if contains ''flipkart'' host then re_search E (NamePat 1) pth else None) of
                     Some (g0, g1) \<Rightarrow> Some (strip (dashes_to_space g1))
                   | None \<Rightarrow>
                       (case filter (\<lambda>seg. CHR ''-'' \<in> set seg \<and> length seg > 10)
                               (split_on (CHR ''/'') pth) of
                          [] \<Rightarrow> None
                        | x # xs \<Rightarrow> Some (strip (dashes_to_space (longest x xs)))))))"

text \<open>
  What \<^verbatim>\<open>analyze_url\<close> returns: the dictionary with \<^verbatim>\<open>success\<close> false and an error message,
  or the dictionary of a successful analysis. Of the latter, \<open>a_results\<close> is the dictionary
  \<^verbatim>\<open>results\<close> of the function, from which the entries \<^verbatim>\<open>platforms_found\<close>, \<^verbatim>\<open>amazon\<close> and
  \<^verbatim>\<open>flipkart\<close> are read off; \<open>a_current_price\<close> and \<open>a_image_url\<close> are the fields of the entry
  \<^verbatim>\<open>product\<close> that are not repeated from the top level.
\<close>

record analysis =
  a_product_name :: "string option"
  a_source_platform :: string
  a_source_url :: string
  a_resolved_url :: string
  a_results :: "(string \<times> product) list"
  a_current_price :: "rat option"
  a_image_url :: "string option"
  a_prediction :: prediction
  a_comparison :: comparison

datatype outcome = Failure string | Success analysis

definition no_platform_message :: string where
  "no_platform_message =
     ''Could not identify platform. Please paste a direct Amazon.in or Flipkart.com product URL.''"

definition no_details_message :: "env \<Rightarrow> string" where
  "no_details_message E =
     ''Could not extract product details from this URL. (ScraperAPI key: ''
     @ (if SCRAPER_API_KEY E \<noteq> [] then ''active'' else ''MISSING'')
     @ ''). Please try a full product URL, not a short link.''"

text \<open>Lines 967-1062: from the result of the scraper to the returned dictionary.\<close>

definition finish ::
  "env \<Rightarrow> (rat \<Rightarrow> bool) \<Rightarrow> string \<Rightarrow> string \<Rightarrow> string \<Rightarrow> product option \<Rightarrow> outcome" where
  "finish E tie source raw_url url data =
     (let results0 = (case data of None \<Rightarrow> [] | Some d \<Rightarrow> [(source, d)]);
          name0 = (case data of None \<Rightarrow> None | Some d \<Rightarrow> p_title d);
          product_name = (if falsy_str name0 then name_from_url E url else name0)
      in if results0 = [] \<and> falsy_str product_name then Failure (no_details_message E)
         else
           (let results =
                  (if results0 = []
                   then [(source,
                          \<lparr>p_platform = (if source = ''amazon'' then ''Amazon'' else ''Flipkart''),
                           p_title = product_name, p_price = None, p_image_url = None,
                           p_url = JStr url, p_availability = JStr ''Price could not be verified'',
                           p_specs = []\<rparr>)]
                   else results0);
                src_data = (case map_of results source of
                              Some d \<Rightarrow> Some d
                            | None \<Rightarrow> (case results of [] \<Rightarrow> None | (k, d) # rest \<Rightarrow> Some d));
                current_price = (case src_data of None \<Rightarrow> None | Some d \<Rightarrow> p_price d)
            in Success
                 \<lparr>a_product_name = product_name, a_source_platform = source,
                  a_source_url = raw_url, a_resolved_url = url, a_results = results,
                  a_current_price = current_price,
                  a_image_url = (case src_data of None \<Rightarrow> None | Some d \<Rightarrow> p_image_url d),
                  a_prediction = predict tie current_price (length results),
                  a_comparison = compare results\<rparr>))"

text \<open>Lines 951-973: the platform of the resolved URL and the scraper for it.\<close>

definition analyze_resolved ::
  "env \<Rightarrow> (rat \<Rightarrow> bool) \<Rightarrow> nat \<Rightarrow> string \<Rightarrow> string \<Rightarrow> log \<Rightarrow> (pyerr + outcome) \<times> log" where
  "analyze_resolved E tie depth raw_url url s =
     (if contains ''amazon.in'' (lower url) \<or> contains ''amazon.com'' (lower url) then
        (case scrape_amazon E url s of
           (Inl e, s') \<Rightarrow> (Inl e, s')
         | (Inr data, s') \<Rightarrow> (Inr (finish E tie ''amazon'' raw_url url data), s'))
      else if contains ''flipkart.com'' (lower url) then
        (case scrape_flipkart E depth url s of
           (Inl e, s') \<Rightarrow> (Inl e, s')
         | (Inr data, s') \<Rightarrow> (Inr (finish E tie ''flipkart'' raw_url url data), s'))
      else (Inr (Failure no_platform_message), s))"

text \<open>
  \<^verbatim>\<open>analyze_url(raw_url)\<close>, lines 932-1062. The call of \<^verbatim>\<open>urlparse\<close> on line 941 stands in no
  \<^verbatim>\<open>try\<close>. \<open>tie\<close> is the rounding of the prediction at an exact half, \<open>depth\<close> the number of
  nested calls the interpreter still allows.
\<close>

definition analyze_url ::
  "env \<Rightarrow> (rat \<Rightarrow> bool) \<Rightarrow> nat \<Rightarrow> string \<Rightarrow> log \<Rightarrow> (pyerr + outcome) \<times> log" where
  "analyze_url E tie depth raw_url s =
     (let url = strip raw_url in
      if url = [] then (Inr (Failure ''URL is required''), s)
      else
        (case urlparse E url of
           Inl e \<Rightarrow> (Inl e, s)
         | Inr parts \<Rightarrow>
             if lstrip_chars ''www.'' (lower (netloc parts)) \<in> set FK_SHORT_HOSTS
             then analyze_resolved E tie depth raw_url url s
             else
               (case is_short E url of
                  Inl e \<Rightarrow> (Inl e, s)
                | Inr short \<Rightarrow>
                    if short \<or> (\<not> contains ''amazon.in'' url \<and> \<not> contains ''flipkart.com'' url)
                    then (case resolve_url E url False s of
                            (Inl e, s') \<Rightarrow> (Inl e, s')
                          | (Inr resolved, s') \<Rightarrow> analyze_resolved E tie depth raw_url resolved s')
                    else analyze_resolved E tie depth raw_url url s)))"

section \<open>Concrete worlds\<close>

subsection \<open>The standard library on plain input\<close>

text \<open>
  The worlds below answer \<^verbatim>\<open>urlparse\<close>, \<^verbatim>\<open>parse_qs\<close> and \<^verbatim>\<open>unquote\<close> as \<^verbatim>\<open>urllib.parse\<close> does on
  plain input: URLs without control characters, without a semicolon in the path and without
  a host in square brackets, and percent escapes of ASCII bytes only (an escape of a byte
  from 128 on is left as it stands here; no world below holds one).

  \<^verbatim>\<open>unquote\<close> replaces each \<^verbatim>\<open>%XX\<close> with two hexadecimal digits by the character of that code.
\<close>

definition hexval :: "char \<Rightarrow> nat option" where
  "hexval c =
     (if 48 \<le> cp c \<and> cp c \<le> 57 then Some (cp c - 48)
      else if 97 \<le> cp c \<and> cp c \<le> 102 then Some (cp c - 87)
      else if 65 \<le> cp c \<and> cp c \<le> 70 then Some (cp c - 55)
      else None)"

fun unquote_plain :: "string \<Rightarrow> string" where
  "unquote_plain (c # h # l # cs) =
     (case (if c = CHR ''%'' then hexval h else None, hexval l) of
        (Some a, Some b) \<Rightarrow>
          if 16 * a + b < 128 then char_of (16 * a + b) # unquote_plain cs
          else c # unquote_plain (h # l # cs)
      | _ \<Rightarrow> c # unquote_plain (h # l # cs))"
| "unquote_plain cs = cs"

text \<open>
  \<^verbatim>\<open>parse_qs\<close>: the fields between \<^verbatim>\<open>&\<close> that hold a \<^verbatim>\<open>=\<close> and a non-empty value, name and
  value with \<^verbatim>\<open>+\<close> turned into a space and then unquoted; the values of a repeated name are
  collected in their order under the first place of the name.
\<close>

definition plus_to_space :: "string \<Rightarrow> string" where
  "plus_to_space t = map (\<lambda>c. if c = CHR ''+'' then CHR '' '' else c) t"

definition parse_pair :: "string \<Rightarrow> (string \<times> string) option" where
  "parse_pair nv =
     (if CHR ''='' \<notin> set nv then None
      else
        (let name = takeWhile (\<lambda>c. c \<noteq> CHR ''='') nv;
             val = drop 1 (dropWhile (\<lambda>c. c \<noteq> CHR ''='') nv)
         in if val = [] then None
            else Some (unquote_plain (plus_to_space name), unquote_plain (plus_to_space val))))"

fun group_values ::
  "(string \<times> string) list \<Rightarrow> (string \<times> string list) list \<Rightarrow> (string \<times> string list) list" where
  "group_values [] acc = acc"
| "group_values ((n, v) # rest) acc =
     group_values rest
       (case map_of acc n of
          None \<Rightarrow> acc @ [(n, [v])]
        | Some vs \<Rightarrow> AList.update n (vs @ [v]) acc)"

definition parse_qs_plain :: "string \<Rightarrow> (string \<times> string list) list" where
  "parse_qs_plain q = group_values (List.map_filter parse_pair (split_on (CHR ''&'') q)) []"

text \<open>
  \<^verbatim>\<open>urlparse\<close>: a leading scheme (a letter, then letters, digits, \<^verbatim>\<open>+\<close>, \<^verbatim>\<open>-\<close>, \<^verbatim>\<open>.\<close>, up to the
  first colon) is taken off; after \<^verbatim>\<open>//\<close> the host runs to the first \<^verbatim>\<open>/\<close>, \<^verbatim>\<open>?\<close> or \<^verbatim>\<open>#\<close>, and
  a host with one square bracket but not the other raises \<^verbatim>\<open>ValueError\<close>; the fragment is
  cut off at the first \<^verbatim>\<open>#\<close> and the query starts after the first \<^verbatim>\<open>?\<close>.
\<close>

definition scheme_char :: "char \<Rightarrow> bool" where
  "scheme_char c =
     ((97 \<le> cp c \<and> cp c \<le> 122) \<or> (65 \<le> cp c \<and> cp c \<le> 90) \<or> (48 \<le> cp c \<and> cp c \<le> 57)
      \<or> c = CHR ''+'' \<or> c = CHR ''-'' \<or> c = CHR ''.'')"

definition is_scheme :: "string \<Rightarrow> bool" where
  "is_scheme t =
     (case t of
        [] \<Rightarrow> False
      | c # cs \<Rightarrow> ((97 \<le> cp c \<and> cp c \<le> 122) \<or> (65 \<le> cp c \<and> cp c \<le> 90)) \<and> list_all scheme_char cs)"

definition host_end :: "char \<Rightarrow> bool" where
  "host_end c = (c = CHR ''/'' \<or> c = CHR ''?'' \<or> c = CHR ''#'')"

definition urlparse_plain :: "string \<Rightarrow> pyerr + url_parts" where
  "urlparse_plain u =
     (let pre = takeWhile (\<lambda>c. c \<noteq> CHR '':'') u;
          url1 = (if pre \<noteq> u \<and> is_scheme pre then drop (length pre + 1) u else u);
          host = (if take 2 url1 = ''//'' then takeWhile (\<lambda>c. \<not> host_end c) (drop 2 url1) else []);
          url2 = (if take 2 url1 = ''//'' then dropWhile (\<lambda>c. \<not> host_end c) (drop 2 url1) else url1);
          url3 = takeWhile (\<lambda>c. c \<noteq> CHR ''#'') url2
      in if (CHR ''['' \<in> set host) \<noteq> (CHR '']'' \<in> set host) then Inl ValueError
         else Inr \<lparr>netloc = host, path = takeWhile (\<lambda>c. c \<noteq> CHR ''?'') url3,
                   query = drop 1 (dropWhile (\<lambda>c. c \<noteq> CHR ''?'') url3)\<rparr>)"

subsection \<open>A world without a network\<close>

text \<open>An environment in which no request is answered, no key is configured and no pattern
  matches; other worlds override the fields they need.\<close>

definition no_soup :: soup where
  "no_soup = \<lparr>select_one = (\<lambda>sel. None), ld_scripts = [], table_pairs = (\<lambda>sels. [])\<rparr>"

definition offline :: env where
  "offline =
     \<lparr>SCRAPER_API_KEY = [], HAS_CS = False, http = (\<lambda>s r. None), as_completed = (\<lambda>s. []),
      urlparse = urlparse_plain, parse_qs = parse_qs_plain, unquote = unquote_plain,
      urljoin = (\<lambda>b u. Inr u), re_search = (\<lambda>p t. None),
      json_loads = (\<lambda>t. None), py_repr = (\<lambda>v. []), BeautifulSoup = (\<lambda>h. no_soup)\<rparr>"

lemma offline_fields [simp]:
  "SCRAPER_API_KEY offline = []"
  "HAS_CS offline = False"
  "http offline s r = None"
  "urlparse offline = urlparse_plain"
  "parse_qs offline = parse_qs_plain"
  "unquote offline = unquote_plain"
  "re_search offline p t = None"
  by (simp_all add: offline_def)

section \<open>Resolution from a query parameter\<close>




















section \<open>Exceptions that leave the entry point\<close>

text \<open>Whatever \<^verbatim>\<open>urlparse\<close> raises on the stripped input leaves \<^verbatim>\<open>analyze_url\<close>: line 941 stands
  in no \<^verbatim>\<open>try\<close>, and nothing has been requested by then.\<close>

lemma analyze_url_urlparse_raises:
  "strip raw_url \<noteq> [] \<Longrightarrow> urlparse E (strip raw_url) = Inl e
     \<Longrightarrow> analyze_url E tie depth raw_url s = (Inl e, s)"
  by (simp add: analyze_url_def)

lemma unbalanced_bracket_strip: "strip ''http://['' = ''http://[''"
  by (simp add: str_eval)

lemma unbalanced_bracket_urlparse: "urlparse_plain ''http://['' = Inl ValueError"
  by (simp add: urlparse_plain_def is_scheme_def scheme_char_def host_end_def Let_def cp_def)

text \<open>
  Claim C1: \<^verbatim>\<open>analyze_url\<close> never raises. It does: on the text \<^verbatim>\<open>http://[\<close> the call
  \<^verbatim>\<open>urlparse(url)\<close> of line 941 raises \<^verbatim>\<open>ValueError\<close> (a host with an opening square bracket
  and no closing one), and \<^verbatim>\<open>analyze_url\<close> ends with that exception instead of a result,
  whatever the rounding and the recursion limit, before any request is made.
\<close>

theorem analyze_url_raises_on_unbalanced_bracket:
  "analyze_url offline tie depth ''http://['' s = (Inl ValueError, s)"
  by (simp add: analyze_url_def unbalanced_bracket_strip unbalanced_bracket_urlparse)

end
